theory Spec2Isabelle
  imports Main "HOL-Library.AList"
begin

section \<open>Strings and numbers as the TypeScript sources use them\<close>

text \<open>
  Paths are JavaScript strings; the sources take them apart with \<open>split("/")\<close>,
  \<open>slice\<close>, \<open>join("/")\<close> and \<open>startsWith\<close>, and build them with template strings.
  Sibling positions are JavaScript numbers that hold integers; they are modelled as \<open>int\<close>.
\<close>

text \<open>\<open>s.split(c)\<close> for a one-character separator: never the empty array.\<close>

fun splitOn :: "char \<Rightarrow> string \<Rightarrow> string list" where
  "splitOn c [] = [[]]"
| "splitOn c (x # xs) =
     (if x = c then [] # splitOn c xs
      else (case splitOn c xs of [] \<Rightarrow> [[x]] | w # ws \<Rightarrow> (x # w) # ws))"

text \<open>\<open>xs.join(sep)\<close>.\<close>

fun joinWith :: "string \<Rightarrow> string list \<Rightarrow> string" where
  "joinWith sep [] = []"
| "joinWith sep [x] = x"
| "joinWith sep (x # y # ys) = x @ sep @ joinWith sep (y # ys)"

text \<open>\<open>s.startsWith(p)\<close>: a comparison of characters, with no notion of path segment.\<close>

fun startsWith :: "string \<Rightarrow> string \<Rightarrow> bool" where
  "startsWith s [] = True"
| "startsWith [] (p # ps) = False"
| "startsWith (c # cs) (p # ps) = (c = p \<and> startsWith cs ps)"

text \<open>\<open>n.toString()\<close> of an integer-valued number: decimal digits, \<open>-\<close> in front when negative.\<close>

fun natToString :: "nat \<Rightarrow> string" where
  "natToString n =
     (if n < 10 then [''0123456789'' ! n]
      else natToString (n div 10) @ [''0123456789'' ! (n mod 10)])"

declare natToString.simps [simp del]

definition toString :: "int \<Rightarrow> string" where
  "toString i = (if i < 0 then ''-'' @ natToString (nat (- i)) else natToString (nat i))"

text \<open>
  \<open>parseInt(s)\<close> with no radix: leading white space is skipped, a sign is read, a
  \<open>0x\<close> prefix selects base 16, and the longest run of digits is read. \<open>None\<close> is
  \<open>NaN\<close> (no digit could be read).
\<close>

definition isWhiteSpace :: "char \<Rightarrow> bool" where
  "isWhiteSpace c = (c = CHR '' '' \<or> c = CHR 0x09 \<or> c = CHR 0x0A \<or> c = CHR 0x0B
     \<or> c = CHR 0x0C \<or> c = CHR 0x0D)"

definition digitValue :: "char \<Rightarrow> nat" where
  "digitValue c =
     (let n = of_char c :: nat in
      if 48 \<le> n \<and> n \<le> 57 then n - 48
      else if 97 \<le> n \<and> n \<le> 122 then n - 87
      else if 65 \<le> n \<and> n \<le> 90 then n - 55
      else 36)"

definition parseInt :: "string \<Rightarrow> int option" where
  "parseInt s =
     (let s1 = dropWhile isWhiteSpace s;
          neg = startsWith s1 ''-'';
          s2 = (if startsWith s1 ''-'' \<or> startsWith s1 ''+'' then drop 1 s1 else s1);
          hex = (startsWith s2 ''0x'' \<or> startsWith s2 ''0X'');
          radix = (if hex then 16 else 10);
          s3 = (if hex then drop 2 s2 else s2);
          ds = takeWhile (\<lambda>c. digitValue c < radix) s3;
          n = foldl (\<lambda>a c. a * radix + digitValue c) 0 ds
      in if ds = [] then None else Some (if neg then - int n else int n))"

text \<open>The collection identifier of a request identifier:
  \<open>requestID.split("/").slice(0, -1).join("/")\<close>.\<close>

definition collectionIDOf :: "string \<Rightarrow> string" where
  "collectionIDOf requestID = joinWith ''/'' (butlast (splitOn CHR ''/'' requestID))"

text \<open>Its trailing segment: \<open>requestID.split("/").slice(-1)[0]\<close>.\<close>

definition trailingSegment :: "string \<Rightarrow> string" where
  "trailingSegment requestID = last (splitOn CHR ''/'' requestID)"



section \<open>Open tabs and their save contexts\<close>

text \<open>
  The save context of a tab document is a tagged union on \<open>originLocation\<close>, or
  \<open>null\<close>/\<open>undefined\<close> (here \<open>None\<close>):
  \<^item> \<open>"user-collection"\<close> with \<open>folderPath\<close> and \<open>requestIndex\<close>;
  \<^item> \<open>"workspace-user-collection"\<close> with \<open>collectionID\<close> and \<open>requestID\<close>;
  \<^item> \<open>"team-collection"\<close> with \<open>requestID\<close> and an optional \<open>collectionID\<close>.
\<close>

datatype saveContext =
    UserCollection string int
  | WorkspaceUserCollection string string
  | TeamCollection string "string option"

text \<open>The authentication of a request or collection, a union tagged by \<open>authType\<close>;
  every variant carries \<open>authActive\<close> first. The fields of \<open>AuthOAuth2\<close> are, in
  order, \<open>accessTokenURL\<close>, \<open>authURL\<close>, \<open>clientID\<close>, \<open>oidcDiscoveryURL\<close>,
  \<open>scope\<close> and \<open>token\<close>.\<close>

datatype hoppAuth =
    AuthNone bool
  | AuthInherit bool
  | AuthBasic bool string string
  | AuthBearer bool string
  | AuthOAuth2 bool string string string string string string

record hoppHeader =
  headerKey :: string
  headerValue :: string
  headerActive :: bool

text \<open>\<open>HoppInheritedProperty\<close>: the resolved authentication with the path of the
  ancestor it comes from, and the inherited headers, each tagged with its ancestor.\<close>

record inheritedAuthEntry =
  authParentID :: string
  authParentName :: string
  inheritedAuth :: hoppAuth

record inheritedHeaderEntry =
  parentID :: string
  parentName :: string
  inheritedHeader :: "hoppHeader option"

record hoppInheritedProperty =
  auth :: inheritedAuthEntry
  headers :: "inheritedHeaderEntry list"

text \<open>A tab document, as far as the helpers read and write it. \<open>tabId\<close> stands for
  everything else a tab holds; no helper writes it.\<close>

record tab =
  tabId :: string
  saveContext :: "saveContext option"
  isDirty :: bool
  inheritedProperties :: "hoppInheritedProperty option"

section \<open>Affected indexes of a reorder\<close>

text \<open>
  Modelled from the spec: \<open>getAffectedIndexes\<close> of \<open>helpers/collection/affectedIndex\<close>,
  which both resolvers import, is not among the sources. The specification describes a
  contiguous shift over the inclusive range between the source and the destination: the
  moved element maps \<open>from \<mapsto> to\<close>, and every other element of the range shifts by one
  position toward the vacated slot (moving 3 to 1 gives \<open>{1 \<mapsto> 2, 2 \<mapsto> 3, 3 \<mapsto> 1}\<close>).
  The JavaScript \<open>Map\<close> is an association list with distinct keys.
\<close>

definition getAffectedIndexes :: "int \<Rightarrow> int \<Rightarrow> (int \<times> int) list" where
  "getAffectedIndexes from to =
     (from, to) #
       (if from < to then map (\<lambda>i. (i, i - 1)) [from + 1 .. to]
        else map (\<lambda>i. (i, i + 1)) [to .. from - 1])"

record payload =
  lastIndex :: int
  newIndex :: int
  folderPath :: string
  lengthOpt :: "int option"

text \<open>
  The payload field \<open>length\<close> is optional and is read only for a deletion
  (\<open>length!\<close>). What \<open>getAffectedIndexes\<close> does with \<open>undefined\<close> is outside its
  contract, so a deletion without \<open>length\<close> is the value \<open>LengthOmitted\<close>.
\<close>

datatype reorderError = LengthOmitted

text \<open>\<open>if (newIndex > lastIndex) newIndex--\<close>, the first statement of both resolvers.\<close>

definition adjustNewIndex :: "int \<Rightarrow> int \<Rightarrow> int" where
  "adjustNewIndex lastIdx newIdx = (if newIdx > lastIdx then newIdx - 1 else newIdx)"

text \<open>
  The map both resolvers go on with, once the adjusted \<open>newIndex\<close> differs from
  \<open>lastIndex\<close>: \<open>getAffectedIndexes(lastIndex, newIndex === -1 ? length! : newIndex)\<close>,
  and for a deletion \<open>affectedIndexes.delete(lastIndex)\<close>.
\<close>

definition affectedIndexesFor :: "int \<Rightarrow> int \<Rightarrow> int option \<Rightarrow> reorderError + (int \<times> int) list" where
  "affectedIndexesFor lastIdx newIdx len =
     (if newIdx = - 1 then
        (case len of
           None \<Rightarrow> Inl LengthOmitted
         | Some n \<Rightarrow> Inr (AList.delete lastIdx (getAffectedIndexes lastIdx n)))
      else Inr (getAffectedIndexes lastIdx newIdx))"

section \<open>Request reorder\<close>

text \<open>The predicate given to \<open>getTabsRefTo\<close> in \<open>resolveSaveContextOnRequestReorder\<close>.\<close>

definition requestReorderSelects :: "string \<Rightarrow> (int \<times> int) list \<Rightarrow> tab \<Rightarrow> bool" where
  "requestReorderSelects fPath affectedIndexes t =
     (case saveContext t of
        Some (UserCollection fp requestIndex) \<Rightarrow>
          fp = fPath \<and> map_of affectedIndexes requestIndex \<noteq> None
      | Some (WorkspaceUserCollection collectionID requestID) \<Rightarrow>
          collectionID = fPath \<and>
          (case parseInt (trailingSegment requestID) of
             None \<Rightarrow> False
           | Some n \<Rightarrow> map_of affectedIndexes n \<noteq> None)
      | _ \<Rightarrow> False)"

text \<open>The body of the loop over the selected tabs: only a \<open>"user-collection"\<close> save
  context is written.\<close>

definition requestReorderUpdate :: "(int \<times> int) list \<Rightarrow> tab \<Rightarrow> tab" where
  "requestReorderUpdate affectedIndexes t =
     (case saveContext t of
        Some (UserCollection fp requestIndex) \<Rightarrow>
          (case map_of affectedIndexes requestIndex of
             None \<Rightarrow> t
           | Some newIdx \<Rightarrow> t\<lparr>saveContext := Some (UserCollection fp newIdx)\<rparr>)
      | _ \<Rightarrow> t)"

definition requestReorderTabs :: "string \<Rightarrow> (int \<times> int) list \<Rightarrow> tab list \<Rightarrow> tab list" where
  "requestReorderTabs fPath affectedIndexes tabs =
     map (\<lambda>t. if requestReorderSelects fPath affectedIndexes t
               then requestReorderUpdate affectedIndexes t else t) tabs"

definition resolveSaveContextOnRequestReorder :: "payload \<Rightarrow> tab list \<Rightarrow> reorderError + tab list" where
  "resolveSaveContextOnRequestReorder p tabs =
     (let newIdx = adjustNewIndex (lastIndex p) (newIndex p) in
      if lastIndex p = newIdx then Inr tabs
      else (case affectedIndexesFor (lastIndex p) newIdx (lengthOpt p) of
              Inl e \<Rightarrow> Inl e
            | Inr affectedIndexes \<Rightarrow> Inr (requestReorderTabs (folderPath p) affectedIndexes tabs)))"

section \<open>Collection reorder and save-context teardown\<close>

text \<open>The predicate of \<open>resetSaveContextForAffectedRequests\<close> (and of the personal
  workspace branch of the inherited-property update): the stored path starts with the
  given path, as strings.\<close>

definition savedUnder :: "string \<Rightarrow> tab \<Rightarrow> bool" where
  "savedUnder path t =
     (case saveContext t of
        Some (UserCollection fp requestIndex) \<Rightarrow> startsWith fp path
      | Some (WorkspaceUserCollection collectionID requestID) \<Rightarrow>
          startsWith (collectionIDOf requestID) path
      | _ \<Rightarrow> False)"

definition resetSaveContextForAffectedRequests :: "string \<Rightarrow> tab list \<Rightarrow> tab list" where
  "resetSaveContextForAffectedRequests fPath tabs =
     map (\<lambda>t. if savedUnder fPath t then t\<lparr>saveContext := None, isDirty := True\<rparr> else t) tabs"

datatype reorderType = Remove | Drop

text \<open>\<open>affectedPaths\<close>: the folder path put in front of every affected index, or the bare
  indexes at the root (\<open>folderPath\<close> empty). \<open>Map.set\<close> is \<open>AList.update\<close>.\<close>

definition affectedPathsOf :: "string \<Rightarrow> (int \<times> int) list \<Rightarrow> (string \<times> string) list" where
  "affectedPathsOf fPath affectedIndexes =
     foldl (\<lambda>m (k, v).
              if fPath \<noteq> [] then AList.update (fPath @ ''/'' @ toString k) (fPath @ ''/'' @ toString v) m
              else AList.update (toString k) (toString v) m)
       [] affectedIndexes"

definition collectionReorderSelects :: "(string \<times> string) list \<Rightarrow> tab \<Rightarrow> bool" where
  "collectionReorderSelects affectedPaths t =
     (case saveContext t of
        Some (UserCollection fp requestIndex) \<Rightarrow> map_of affectedPaths fp \<noteq> None
      | Some (WorkspaceUserCollection collectionID requestID) \<Rightarrow>
          map_of affectedPaths (collectionIDOf requestID) \<noteq> None
      | _ \<Rightarrow> False)"

definition collectionReorderUpdate :: "(string \<times> string) list \<Rightarrow> tab \<Rightarrow> tab" where
  "collectionReorderUpdate affectedPaths t =
     (case saveContext t of
        Some (UserCollection fp requestIndex) \<Rightarrow>
          (case map_of affectedPaths fp of
             None \<Rightarrow> t
           | Some newPath \<Rightarrow> t\<lparr>saveContext := Some (UserCollection newPath requestIndex)\<rparr>)
      | Some (WorkspaceUserCollection collectionID requestID) \<Rightarrow>
          (case map_of affectedPaths (collectionIDOf requestID) of
             None \<Rightarrow> t
           | Some newCollectionID \<Rightarrow>
               t\<lparr>saveContext := Some (WorkspaceUserCollection collectionID
                    (newCollectionID @ ''/'' @ trailingSegment requestID))\<rparr>)
      | _ \<Rightarrow> t)"

definition collectionReorderTabs :: "(string \<times> string) list \<Rightarrow> tab list \<Rightarrow> tab list" where
  "collectionReorderTabs affectedPaths tabs =
     map (\<lambda>t. if collectionReorderSelects affectedPaths t
               then collectionReorderUpdate affectedPaths t else t) tabs"

text \<open>The path of the deleted collection:
  \<open>folderPath ? `${folderPath}/${lastIndex}` : lastIndex.toString()\<close>.\<close>

definition deletedPath :: "string \<Rightarrow> int \<Rightarrow> string" where
  "deletedPath fPath lastIdx =
     (if fPath \<noteq> [] then fPath @ ''/'' @ toString lastIdx else toString lastIdx)"

definition resolveSaveContextOnCollectionReorder ::
  "payload \<Rightarrow> reorderType \<Rightarrow> tab list \<Rightarrow> reorderError + tab list" where
  "resolveSaveContextOnCollectionReorder p type tabs =
     (let newIdx = adjustNewIndex (lastIndex p) (newIndex p) in
      if lastIndex p = newIdx then Inr tabs
      else (case affectedIndexesFor (lastIndex p) newIdx (lengthOpt p) of
              Inl e \<Rightarrow> Inl e
            | Inr affectedIndexes \<Rightarrow>
                (let tabs1 = (if newIdx = - 1 \<and> type = Remove
                              then resetSaveContextForAffectedRequests
                                     (deletedPath (folderPath p) (lastIndex p)) tabs
                              else tabs)
                 in Inr (collectionReorderTabs
                           (affectedPathsOf (folderPath p) affectedIndexes) tabs1))))"

text \<open>A clean tab with nothing inherited, for the worked examples.\<close>

definition openTab :: "string \<Rightarrow> saveContext option \<Rightarrow> tab" where
  "openTab i sc = \<lparr>tabId = i, saveContext = sc, isDirty = False, inheritedProperties = None\<rparr>"

text \<open>
  What the specification means by a path lying at or under a node of the collection tree:
  the path is the node's own path, or continues it with a further segment. This is the
  reading the teardown is compared with; the sources themselves use \<open>startsWith\<close>.
\<close>

definition isAtOrUnder :: "string \<Rightarrow> string \<Rightarrow> bool" where
  "isAtOrUnder path node = (path = node \<or> startsWith path (node @ ''/''))"

section \<open>Propagation of inherited properties\<close>

text \<open>
  The two counting loops of \<open>folderPathCloseToSaveContext\<close>: position by position, a
  segment of the path counts when it equals the segment of the save-context path at the
  same position. Every position of the path is visited; past the end of the save-context
  path the comparison is with \<open>undefined\<close> and never succeeds.
\<close>

fun countMatches :: "string list \<Rightarrow> string list \<Rightarrow> nat" where
  "countMatches [] ys = 0"
| "countMatches (x # xs) [] = 0"
| "countMatches (x # xs) (y # ys) = (if x = y then 1 else 0) + countMatches xs ys"

definition folderPathCloseToSaveContext :: "string option \<Rightarrow> string \<Rightarrow> string \<Rightarrow> string" where
  "folderPathCloseToSaveContext folderPathCurrent newFolderPath saveContextPath =
     (case folderPathCurrent of
        None \<Rightarrow> newFolderPath
      | Some cur \<Rightarrow>
          if cur = [] then newFolderPath
          else
            (let saveContextFolderPathArray = splitOn CHR ''/'' saveContextPath;
                 folderPathCurrentMatch = countMatches (splitOn CHR ''/'' cur) saveContextFolderPathArray;
                 newFolderPathMatch = countMatches (splitOn CHR ''/'' newFolderPath) saveContextFolderPathArray
             in if folderPathCurrentMatch > newFolderPathMatch then cur else newFolderPath))"

datatype workspace = Personal | Team

datatype documentType = Rest | Graphql

text \<open>The tabs the update looks at: saved under the path in a personal workspace, or a
  team-collection tab whose \<open>collectionID\<close> is present and starts with the path.\<close>

definition inheritSelects :: "workspace \<Rightarrow> string \<Rightarrow> tab \<Rightarrow> bool" where
  "inheritSelects ws path t =
     (case ws of
        Personal \<Rightarrow> savedUnder path t
      | Team \<Rightarrow>
          (case saveContext t of
             Some (TeamCollection requestID (Some collectionID)) \<Rightarrow> startsWith collectionID path
           | _ \<Rightarrow> False))"

text \<open>\<open>tab.value.document.inheritedProperties?.auth.parentID\<close>.\<close>

definition cachedAuthParentID :: "tab \<Rightarrow> string option" where
  "cachedAuthParentID t = map_option (\<lambda>ip. authParentID (auth ip)) (inheritedProperties t)"

text \<open>The filter \<open>tabsEffectedByAuth\<close>.\<close>

definition effectedByAuth :: "workspace \<Rightarrow> string \<Rightarrow> tab \<Rightarrow> bool" where
  "effectedByAuth ws path t =
     (case ws of
        Personal \<Rightarrow>
          (case saveContext t of
             Some (UserCollection fp requestIndex) \<Rightarrow>
               startsWith fp path \<and>
               path = folderPathCloseToSaveContext (cachedAuthParentID t) path fp
           | Some (WorkspaceUserCollection cid requestID) \<Rightarrow>
               startsWith (collectionIDOf requestID) path \<and>
               path = folderPathCloseToSaveContext (cachedAuthParentID t) path
                        (collectionIDOf requestID)
           | _ \<Rightarrow> False)
      | Team \<Rightarrow>
          (case saveContext t of
             Some (TeamCollection requestID (Some collectionID)) \<Rightarrow>
               startsWith collectionID path \<and>
               path = folderPathCloseToSaveContext (cachedAuthParentID t) path collectionID
           | _ \<Rightarrow> False))"

text \<open>The filter \<open>tabsEffectedByHeaders\<close>.\<close>

definition effectedByHeaders :: "string \<Rightarrow> tab \<Rightarrow> bool" where
  "effectedByHeaders path t =
     (case inheritedProperties t of
        None \<Rightarrow> False
      | Some ip \<Rightarrow> list_ex (\<lambda>header. parentID header = path) (headers ip))"

text \<open>
  \<open>inheritedProperties.headers.find((inheritedHeader) =>
     inheritedHeader.inheritedHeader?.key === header.inheritedHeader?.key)?.inheritedHeader\<close>:
  the header of the first entry of the new list with the same key; two absent headers
  have the same (undefined) key.
\<close>

definition findInheritedHeader :: "inheritedHeaderEntry list \<Rightarrow> inheritedHeaderEntry \<Rightarrow> hoppHeader option" where
  "findInheritedHeader newHeaders header =
     (case find (\<lambda>ih. map_option headerKey (inheritedHeader ih) =
                       map_option headerKey (inheritedHeader header)) newHeaders of
        None \<Rightarrow> None
      | Some ih \<Rightarrow> inheritedHeader ih)"

definition refreshHeader :: "string \<Rightarrow> inheritedHeaderEntry list \<Rightarrow> inheritedHeaderEntry \<Rightarrow> inheritedHeaderEntry" where
  "refreshHeader path newHeaders header =
     (if parentID header = path
      then header\<lparr>inheritedHeader := findInheritedHeader newHeaders header\<rparr>
      else header)"

text \<open>
  What the two loops do to one of the selected tabs. Both filters were evaluated before
  the first loop ran, so they read the tab as it was; the header loop reads the
  inherited properties as the auth loop left them.
\<close>

definition updateInheritedTab :: "workspace \<Rightarrow> string \<Rightarrow> hoppInheritedProperty \<Rightarrow> tab \<Rightarrow> tab" where
  "updateInheritedTab ws path newProps t =
     (let t1 = (if effectedByAuth ws path t then t\<lparr>inheritedProperties := Some newProps\<rparr> else t)
      in if effectedByHeaders path t
         then (case inheritedProperties t1 of
                 None \<Rightarrow> t1
               | Some ip \<Rightarrow>
                   t1\<lparr>inheritedProperties :=
                        Some (ip\<lparr>headers := map (refreshHeader path (headers newProps)) (headers ip)\<rparr>)\<rparr>)
         else t1)"

definition updateInheritedTabs :: "workspace \<Rightarrow> string \<Rightarrow> hoppInheritedProperty \<Rightarrow> tab list \<Rightarrow> tab list" where
  "updateInheritedTabs ws path newProps tabs =
     map (\<lambda>t. if inheritSelects ws path t then updateInheritedTab ws path newProps t else t) tabs"

text \<open>The two tab services; \<open>type\<close> chooses the one whose tabs are updated.\<close>

record tabServices =
  restTabs :: "tab list"
  gqlTabs :: "tab list"

definition updateInheritedPropertiesForAffectedRequests ::
  "string \<Rightarrow> hoppInheritedProperty \<Rightarrow> documentType \<Rightarrow> workspace \<Rightarrow> tabServices \<Rightarrow> tabServices" where
  "updateInheritedPropertiesForAffectedRequests path newProps type ws st =
     (case type of
        Rest \<Rightarrow> st\<lparr>restTabs := updateInheritedTabs ws path newProps (restTabs st)\<rparr>
      | Graphql \<Rightarrow> st\<lparr>gqlTabs := updateInheritedTabs ws path newProps (gqlTabs st)\<rparr>)"

text \<open>
  The tab's own save-context path, as each branch of the filters reads it: the folder
  path, the collection identifier of the request identifier, or the team collection
  identifier.
\<close>

definition ownSavePath :: "tab \<Rightarrow> string option" where
  "ownSavePath t =
     (case saveContext t of
        None \<Rightarrow> None
      | Some (UserCollection fp requestIndex) \<Rightarrow> Some fp
      | Some (WorkspaceUserCollection cid requestID) \<Rightarrow> Some (collectionIDOf requestID)
      | Some (TeamCollection requestID collectionID) \<Rightarrow> collectionID)"

text \<open>
  The cached source path is strictly closer to the save-context path than the new path:
  it is present and not empty, and more of its segments match.
\<close>

definition strictlyCloser :: "string option \<Rightarrow> string \<Rightarrow> string \<Rightarrow> bool" where
  "strictlyCloser cached newPath savePath =
     (case cached of
        None \<Rightarrow> False
      | Some cur \<Rightarrow>
          cur \<noteq> [] \<and>
          countMatches (splitOn CHR ''/'' cur) (splitOn CHR ''/'' savePath) >
          countMatches (splitOn CHR ''/'' newPath) (splitOn CHR ''/'' savePath))"

text \<open>
  The length of the longest common prefix of two segment lists, the measure of closeness
  the specification names: counting stops at the first segment that differs.
\<close>

fun commonPrefixLength :: "string list \<Rightarrow> string list \<Rightarrow> nat" where
  "commonPrefixLength (x # xs) (y # ys) = (if x = y then 1 + commonPrefixLength xs ys else 0)"
| "commonPrefixLength xs ys = 0"

definition strictlyCloserByPrefix :: "string option \<Rightarrow> string \<Rightarrow> string \<Rightarrow> bool" where
  "strictlyCloserByPrefix cached newPath savePath =
     (case cached of
        None \<Rightarrow> False
      | Some cur \<Rightarrow>
          commonPrefixLength (splitOn CHR ''/'' cur) (splitOn CHR ''/'' savePath) >
          commonPrefixLength (splitOn CHR ''/'' newPath) (splitOn CHR ''/'' savePath))"

section \<open>Validation and batch update of the infrastructure configuration\<close>

text \<open>
  The names \<open>validateEnvValues\<close> distinguishes; every other member of the two enums is
  \<open>OtherConfig\<close>.
\<close>

datatype infraConfigName =
    MAILER_SMTP_URL | MAILER_ADDRESS_FROM
  | GOOGLE_CLIENT_ID | GOOGLE_CLIENT_SECRET | GOOGLE_CALLBACK_URL | GOOGLE_SCOPE
  | GITHUB_CLIENT_ID | GITHUB_CLIENT_SECRET | GITHUB_CALLBACK_URL | GITHUB_SCOPE
  | MICROSOFT_CLIENT_ID | MICROSOFT_CLIENT_SECRET | MICROSOFT_CALLBACK_URL | MICROSOFT_SCOPE
  | MICROSOFT_TENANT
  | OtherConfig string

text \<open>\<open>InfraConfigArgs\<close>: the fields \<open>name\<close> and \<open>value\<close>.\<close>

record infraConfigArgs =
  cfgName :: infraConfigName
  cfgValue :: string

text \<open>
  The predicates \<open>validateSMTPUrl\<close>, \<open>validateSMTPEmail\<close> and \<open>validateUrl\<close> are
  imported from \<open>src/utils\<close>, which is not among the sources; the service is modelled
  for any three predicates on strings.
\<close>

record validators =
  validateSMTPUrl :: "string \<Rightarrow> bool"
  validateSMTPEmail :: "string \<Rightarrow> bool"
  validateUrl :: "string \<Rightarrow> bool"

datatype infraError = INFRA_CONFIG_INVALID_INPUT | INFRA_CONFIG_UPDATE_FAILED

text \<open>One round of the \<open>switch\<close> in \<open>validateEnvValues\<close>: whether the loop goes on past
  this entry. \<open>!value\<close> is true of the empty string.\<close>

definition fieldValid :: "validators \<Rightarrow> infraConfigArgs \<Rightarrow> bool" where
  "fieldValid v c =
     (case cfgName c of
        MAILER_SMTP_URL \<Rightarrow> validateSMTPUrl v (cfgValue c)
      | MAILER_ADDRESS_FROM \<Rightarrow> validateSMTPEmail v (cfgValue c)
      | GOOGLE_CLIENT_ID \<Rightarrow> cfgValue c \<noteq> []
      | GOOGLE_CLIENT_SECRET \<Rightarrow> cfgValue c \<noteq> []
      | GOOGLE_CALLBACK_URL \<Rightarrow> validateUrl v (cfgValue c)
      | GOOGLE_SCOPE \<Rightarrow> cfgValue c \<noteq> []
      | GITHUB_CLIENT_ID \<Rightarrow> cfgValue c \<noteq> []
      | GITHUB_CLIENT_SECRET \<Rightarrow> cfgValue c \<noteq> []
      | GITHUB_CALLBACK_URL \<Rightarrow> validateUrl v (cfgValue c)
      | GITHUB_SCOPE \<Rightarrow> cfgValue c \<noteq> []
      | MICROSOFT_CLIENT_ID \<Rightarrow> cfgValue c \<noteq> []
      | MICROSOFT_CLIENT_SECRET \<Rightarrow> cfgValue c \<noteq> []
      | MICROSOFT_CALLBACK_URL \<Rightarrow> validateUrl v (cfgValue c)
      | MICROSOFT_SCOPE \<Rightarrow> cfgValue c \<noteq> []
      | MICROSOFT_TENANT \<Rightarrow> cfgValue c \<noteq> []
      | OtherConfig n \<Rightarrow> True)"

fun validateEnvValues :: "validators \<Rightarrow> infraConfigArgs list \<Rightarrow> infraError + bool" where
  "validateEnvValues v [] = Inr True"
| "validateEnvValues v (c # cs) =
     (if fieldValid v c then validateEnvValues v cs else Inl INFRA_CONFIG_INVALID_INPUT)"

text \<open>
  The persistent state the service writes: the rows of the \<open>infra_config\<close> table, by
  name, and whether \<open>stopApp()\<close> has been called.
\<close>

record infraState =
  rows :: "infraConfigName \<rightharpoonup> string"
  stopped :: bool

text \<open>
  The loop inside \<open>prisma.$transaction\<close>: a row is updated where it exists; an update
  of a missing row throws, which rolls the transaction back (\<open>None\<close>).
\<close>

fun updateRows :: "(infraConfigName \<rightharpoonup> string) \<Rightarrow> infraConfigArgs list \<Rightarrow> (infraConfigName \<rightharpoonup> string) option" where
  "updateRows table [] = Some table"
| "updateRows table (c # cs) =
     (if table (cfgName c) = None then None
      else updateRows (table(cfgName c \<mapsto> cfgValue c)) cs)"

definition updateMany ::
  "validators \<Rightarrow> infraConfigArgs list \<Rightarrow> infraState \<Rightarrow> (infraError + infraConfigArgs list) \<times> infraState" where
  "updateMany v infraConfigs st =
     (case validateEnvValues v infraConfigs of
        Inl e \<Rightarrow> (Inl e, st)
      | Inr ok \<Rightarrow>
          (case updateRows (rows st) infraConfigs of
             None \<Rightarrow> (Inl INFRA_CONFIG_UPDATE_FAILED, st)
           | Some table \<Rightarrow> (Inr infraConfigs, st\<lparr>rows := table, stopped := True\<rparr>)))"

section \<open>The Insomnia importer\<close>

subsection \<open>Template rewriting\<close>

text \<open>
  \<open>replaceInsomniaTemplating\<close> replaces every match of the regular expression
  \<open>/\{\{ _\.([^}]+) \}\}/g\<close> by \<open><<$1>>\<close>. A match at the head of the string starts
  with \<open>{{ _.\<close>; the group \<open>[^}]+\<close> first takes the longest run of characters other
  than \<open>}\<close> and gives characters back, one at a time and never all of them, until
  \<open> }}\<close> follows. The result is the captured text and the rest of the string after
  the match. Characters are bytes here; all delimiters are ASCII.
\<close>

definition matchTemplate :: "string \<Rightarrow> (string \<times> string) option" where
  "matchTemplate s =
     (if startsWith s ''{{ _.'' then
        (let rest = drop 5 s;
             run = length (takeWhile (\<lambda>c. c \<noteq> CHR ''}'') rest)
         in (case find (\<lambda>k. startsWith (drop k rest) '' }}'') (rev [1 ..< Suc run]) of
               None \<Rightarrow> None
             | Some k \<Rightarrow> Some (take k rest, drop (k + 3) rest)))
      else None)"

function replaceInsomniaTemplating :: "string \<Rightarrow> string" where
  "replaceInsomniaTemplating [] = []"
| "replaceInsomniaTemplating (c # cs) =
     (case matchTemplate (c # cs) of
        Some (captured, rest) \<Rightarrow> ''<<'' @ captured @ ''>>'' @ replaceInsomniaTemplating rest
      | None \<Rightarrow> c # replaceInsomniaTemplating cs)"
  by pat_completeness auto
termination
  by (relation "measure length")
     (auto simp: matchTemplate_def Let_def split: if_splits option.splits)

definition replaceVarTemplating :: "string \<Rightarrow> string" where
  "replaceVarTemplating expression = replaceInsomniaTemplating expression"

text \<open>\<open>toUpperCase\<close> and \<open>toLowerCase\<close> on the ASCII letters; other bytes are kept.\<close>

definition toUpperCase :: "string \<Rightarrow> string" where
  "toUpperCase s =
     map (\<lambda>c. case map_of (zip ''abcdefghijklmnopqrstuvwxyz'' ''ABCDEFGHIJKLMNOPQRSTUVWXYZ'') c of
                None \<Rightarrow> c | Some u \<Rightarrow> u) s"

definition toLowerCase :: "string \<Rightarrow> string" where
  "toLowerCase s =
     map (\<lambda>c. case map_of (zip ''ABCDEFGHIJKLMNOPQRSTUVWXYZ'' ''abcdefghijklmnopqrstuvwxyz'') c of
                None \<Rightarrow> c | Some l \<Rightarrow> l) s"

subsection \<open>The foreign document\<close>

text \<open>\<open>parentId\<close> of a resource: \<open>null\<close>, missing, or an identifier.\<close>

datatype parentRef = ParentNull | ParentUndefined | ParentId string

text \<open>\<open>InsoReqAuth\<close> as an object whose fields may all be missing; \<open>insoType\<close> is its
  \<open>type\<close> tag.\<close>

record insoReqAuth =
  insoType :: "string option"
  disabled :: "bool option"
  username :: "string option"
  password :: "string option"
  accessTokenUrl :: "string option"
  authorizationUrl :: "string option"
  clientId :: "string option"
  scope :: "string option"
  token :: "string option"

record insoHeader =
  insoHeaderName :: string
  insoHeaderValue :: string
  insoHeaderDisabled :: "bool option"

record insoParam =
  insoParamName :: string
  insoParamValue :: "string option"
  insoParamDisabled :: "bool option"

record insoBodyObject =
  mimeType :: "string option"
  params :: "insoParam list option"
  bodyText :: "string option"

datatype insoBody = BodyString string | BodyObject insoBodyObject

record insomniaResource =
  resId :: "string option"
  resType :: string
  resParentId :: parentRef
  resName :: "string option"
  resUrl :: "string option"
  resMethod :: "string option"
  resAuthentication :: "insoReqAuth option"
  resBody :: "insoBody option"
  resHeaders :: "insoHeader list option"
  resParameters :: "insoParam list option"

text \<open>\<open>InsomniaDoc\<close>: \<open>doc.data.resources\<close>.\<close>

record insomniaDoc =
  resources :: "insomniaResource list"

subsection \<open>The internal collection\<close>

record hoppParam =
  paramKey :: string
  paramValue :: string
  paramActive :: bool

record formDataEntry =
  formKey :: string
  formValue :: string
  formActive :: bool
  isFile :: bool

text \<open>\<open>HoppRESTReqBody\<close>: \<open>{contentType: null, body: null}\<close>, a content type with a text
  body, or \<open>multipart/form-data\<close> with its entries.\<close>

datatype hoppReqBody = BodyNone | BodyRaw string string | BodyFormData "formDataEntry list"

text \<open>The fields given to \<open>makeRESTRequest\<close> and \<open>makeCollection\<close>; the schema version
  these constructors add is left out.\<close>

record hoppRESTRequest =
  reqName :: string
  reqMethod :: string
  reqEndpoint :: string
  reqAuth :: hoppAuth
  reqBody :: hoppReqBody
  reqHeaders :: "hoppHeader list"
  reqParams :: "hoppParam list"
  preRequestScript :: string
  testScript :: string

text \<open>A collection: \<open>name\<close>, \<open>folders\<close>, \<open>requests\<close>, \<open>auth\<close> and \<open>headers\<close>.\<close>

datatype hoppCollection =
  Collection string "hoppCollection list" "hoppRESTRequest list" hoppAuth "hoppHeader list"

subsection \<open>The mapping\<close>

text \<open>\<open>x.parentId === (folder?._id ?? null)\<close>.\<close>

definition isChildOf :: "insomniaResource option \<Rightarrow> insomniaResource \<Rightarrow> bool" where
  "isChildOf folder x =
     (resParentId x =
        (case folder of
           None \<Rightarrow> ParentNull
         | Some f \<Rightarrow> (case resId f of None \<Rightarrow> ParentNull | Some i \<Rightarrow> ParentId i)))"

definition getFoldersIn :: "insomniaResource option \<Rightarrow> insomniaResource list \<Rightarrow> insomniaResource list" where
  "getFoldersIn folder rs =
     filter (\<lambda>x. (resType x = ''request_group'' \<or> resType x = ''workspace'') \<and> isChildOf folder x) rs"

definition getRequestsIn :: "insomniaResource option \<Rightarrow> insomniaResource list \<Rightarrow> insomniaResource list" where
  "getRequestsIn folder rs = filter (\<lambda>x. resType x = ''request'' \<and> isChildOf folder x) rs"

text \<open>\<open>x ?? ""\<close>.\<close>

definition orEmpty :: "string option \<Rightarrow> string" where
  "orEmpty x = (case x of None \<Rightarrow> [] | Some s \<Rightarrow> s)"

text \<open>\<open>!(x ?? false)\<close>.\<close>

definition notDisabled :: "bool option \<Rightarrow> bool" where
  "notDisabled x = (case x of None \<Rightarrow> True | Some b \<Rightarrow> \<not> b)"

definition getHoppReqAuth :: "insomniaResource \<Rightarrow> hoppAuth" where
  "getHoppReqAuth req =
     (case resAuthentication req of
        None \<Rightarrow> AuthNone True
      | Some a \<Rightarrow>
          if insoType a = Some ''basic'' then
            AuthBasic True (replaceVarTemplating (orEmpty (username a)))
              (replaceVarTemplating (orEmpty (password a)))
          else if insoType a = Some ''oauth2'' then
            AuthOAuth2 (notDisabled (disabled a))
              (replaceVarTemplating (orEmpty (accessTokenUrl a)))
              (replaceVarTemplating (orEmpty (authorizationUrl a)))
              (replaceVarTemplating (orEmpty (clientId a)))
              []
              (replaceVarTemplating (orEmpty (scope a)))
              []
          else if insoType a = Some ''bearer'' then
            AuthBearer True (replaceVarTemplating (orEmpty (token a)))
          else AuthNone True)"

text \<open>\<open>knownContentTypes\<close> comes from the data package, which is not among the sources;
  its keys are a parameter.\<close>

definition getHoppReqBody :: "string list \<Rightarrow> insomniaResource \<Rightarrow> hoppReqBody" where
  "getHoppReqBody knownContentTypes req =
     (case resBody req of
        None \<Rightarrow> BodyNone
      | Some (BodyString s) \<Rightarrow>
          if s = [] then BodyNone
          else
            BodyRaw
              (case resHeaders req of
                 None \<Rightarrow> ''text/plain''
               | Some hs \<Rightarrow>
                   (case find (\<lambda>header. toLowerCase (insoHeaderName header) = ''content-type'') hs of
                      None \<Rightarrow> ''text/plain''
                    | Some header \<Rightarrow> insoHeaderValue header))
              (replaceVarTemplating s)
      | Some (BodyObject b) \<Rightarrow>
          if mimeType b = Some ''multipart/form-data'' then
            BodyFormData
              (case params b of
                 None \<Rightarrow> []
               | Some ps \<Rightarrow>
                   map (\<lambda>param.
                          \<lparr>formKey = replaceVarTemplating (insoParamName param),
                           formValue = replaceVarTemplating (orEmpty (insoParamValue param)),
                           formActive = notDisabled (insoParamDisabled param),
                           isFile = False\<rparr>) ps)
          else if mimeType b = Some ''application/x-www-form-urlencoded'' then
            BodyRaw ''application/x-www-form-urlencoded''
              (case params b of
                 None \<Rightarrow> []
               | Some ps \<Rightarrow>
                   joinWith [CHR 0x0A]
                     (map (\<lambda>param. replaceVarTemplating (insoParamName param) @ '': '' @
                                    replaceVarTemplating (orEmpty (insoParamValue param)))
                        (filter (\<lambda>param. notDisabled (insoParamDisabled param)) ps)))
          else if (case mimeType b of None \<Rightarrow> ''text/plain'' | Some m \<Rightarrow> m) \<in> set knownContentTypes then
            BodyRaw (case mimeType b of None \<Rightarrow> ''text/plain'' | Some m \<Rightarrow> m)
              (replaceVarTemplating (orEmpty (bodyText b)))
          else BodyNone)"

definition getHoppReqHeaders :: "insomniaResource \<Rightarrow> hoppHeader list" where
  "getHoppReqHeaders req =
     (case resHeaders req of
        None \<Rightarrow> []
      | Some hs \<Rightarrow>
          map (\<lambda>header.
                 \<lparr>headerKey = replaceVarTemplating (insoHeaderName header),
                  headerValue = replaceVarTemplating (insoHeaderValue header),
                  headerActive = (case insoHeaderDisabled header of None \<Rightarrow> True | Some d \<Rightarrow> \<not> d)\<rparr>) hs)"

definition getHoppReqParams :: "insomniaResource \<Rightarrow> hoppParam list" where
  "getHoppReqParams req =
     (case resParameters req of
        None \<Rightarrow> []
      | Some ps \<Rightarrow>
          map (\<lambda>param.
                 \<lparr>paramKey = replaceVarTemplating (insoParamName param),
                  paramValue = replaceVarTemplating (orEmpty (insoParamValue param)),
                  paramActive = notDisabled (insoParamDisabled param)\<rparr>) ps)"

definition getHoppRequest :: "string list \<Rightarrow> insomniaResource \<Rightarrow> hoppRESTRequest" where
  "getHoppRequest knownContentTypes req =
     \<lparr>reqName = (case resName req of None \<Rightarrow> ''Untitled Request'' | Some n \<Rightarrow> n),
      reqMethod = (case resMethod req of None \<Rightarrow> ''GET'' | Some m \<Rightarrow> toUpperCase m),
      reqEndpoint = replaceVarTemplating (orEmpty (resUrl req)),
      reqAuth = getHoppReqAuth req,
      reqBody = getHoppReqBody knownContentTypes req,
      reqHeaders = getHoppReqHeaders req,
      reqParams = getHoppReqParams req,
      preRequestScript = [],
      testScript = []\<rparr>"

text \<open>
  \<open>getHoppFolder\<close> calls itself on every folder whose parent is the given one. Nothing
  in the document keeps a folder from being its own ancestor, so the recursion need not
  end; the model counts the depth it may still descend and is \<open>None\<close> when that is used up.
\<close>

fun getHoppFolder :: "string list \<Rightarrow> nat \<Rightarrow> insomniaResource \<Rightarrow> insomniaResource list \<Rightarrow> hoppCollection option" where
  "getHoppFolder knownContentTypes 0 folderRes rs = None"
| "getHoppFolder knownContentTypes (Suc depth) folderRes rs =
     (case those (map (\<lambda>f. getHoppFolder knownContentTypes depth f rs)
                    (getFoldersIn (Some folderRes) rs)) of
        None \<Rightarrow> None
      | Some folders \<Rightarrow>
          Some (Collection (orEmpty (resName folderRes)) folders
                  (map (getHoppRequest knownContentTypes) (getRequestsIn (Some folderRes) rs))
                  (AuthInherit True) []))"

definition getHoppCollections :: "string list \<Rightarrow> nat \<Rightarrow> insomniaDoc list \<Rightarrow> hoppCollection list option" where
  "getHoppCollections knownContentTypes depth docs =
     map_option concat
       (those (map (\<lambda>doc. those (map (\<lambda>f. getHoppFolder knownContentTypes depth f (resources doc))
                                      (getFoldersIn None (resources doc)))) docs))"

datatype importError = IMPORTER_INVALID_FILE_FORMAT

text \<open>
  \<open>convert\<close> belongs to the \<open>insomnia-importers\<close> library and is a parameter: \<open>None\<close>
  when its promise is rejected, which is what \<open>TO.tryCatch\<close> turns into \<open>none\<close>.
  \<open>A.traverse(TO.ApplicativeSeq)\<close> runs the documents in order and is \<open>none\<close> as soon as
  one of them is; that is \<open>those\<close> of the mapped list.
\<close>

definition parseInsomniaDoc :: "(string \<Rightarrow> insomniaDoc option) \<Rightarrow> string \<Rightarrow> insomniaDoc option" where
  "parseInsomniaDoc convert content = convert content"

definition hoppInsomniaImporter ::
  "(string \<Rightarrow> insomniaDoc option) \<Rightarrow> string list \<Rightarrow> nat \<Rightarrow> string list \<Rightarrow>
     (importError + hoppCollection list) option" where
  "hoppInsomniaImporter convert knownContentTypes depth fileContents =
     (case those (map (parseInsomniaDoc convert) fileContents) of
        None \<Rightarrow> Some (Inl IMPORTER_INVALID_FILE_FORMAT)
      | Some docs \<Rightarrow> map_option Inr (getHoppCollections knownContentTypes depth docs))"

section \<open>Basic facts about the string helpers\<close>

lemma splitOn_not_Nil: "splitOn c s \<noteq> []"
  by (induction s) (auto split: list.splits)

section \<open>The reorder resolvers\<close>

lemma adjustNewIndex_eq_last:
  "adjustNewIndex l n = l \<longleftrightarrow> n = l \<or> n = l + 1"
  by (auto simp: adjustNewIndex_def)

text \<open>
  C1. In both resolvers a destination above the source is decremented by one before the
  affected range is computed, so a downward move of more than one place computes the range
  from \<open>lastIndex\<close> to \<open>newIndex - 1\<close>; and when the adjusted destination equals
  \<open>lastIndex\<close> the resolver returns the tabs as they are: no save context, dirty flag or
  other field of any tab changes.
\<close>

theorem reorder_decrement_and_noop:
  "(lastIndex p < newIndex p \<longrightarrow> adjustNewIndex (lastIndex p) (newIndex p) = newIndex p - 1) \<and>
   (0 \<le> lastIndex p \<and> lastIndex p + 1 < newIndex p \<longrightarrow>
      resolveSaveContextOnRequestReorder p tabs =
        Inr (requestReorderTabs (folderPath p)
               (getAffectedIndexes (lastIndex p) (newIndex p - 1)) tabs) \<and>
      resolveSaveContextOnCollectionReorder p type tabs =
        Inr (collectionReorderTabs
               (affectedPathsOf (folderPath p)
                  (getAffectedIndexes (lastIndex p) (newIndex p - 1))) tabs)) \<and>
   (adjustNewIndex (lastIndex p) (newIndex p) = lastIndex p \<longrightarrow>
      resolveSaveContextOnRequestReorder p tabs = Inr tabs \<and>
      resolveSaveContextOnCollectionReorder p type tabs = Inr tabs)"
  by (simp add: adjustNewIndex_def resolveSaveContextOnRequestReorder_def
      resolveSaveContextOnCollectionReorder_def affectedIndexesFor_def Let_def)

theorem reorder_decrement_and_noop_witness:
  "(1::int) < 3 \<and> (0::int) \<le> 1 \<and> (1::int) + 1 < 3 \<and>
   adjustNewIndex 1 3 = 2 \<and>
   resolveSaveContextOnRequestReorder
     \<lparr>lastIndex = 1, newIndex = 3, folderPath = ''0'', lengthOpt = None\<rparr>
     [openTab ''t'' (Some (UserCollection ''0'' 2))]
   = Inr [openTab ''t'' (Some (UserCollection ''0'' 1))] \<and>
   adjustNewIndex 1 2 = 1 \<and>
   resolveSaveContextOnRequestReorder
     \<lparr>lastIndex = 1, newIndex = 2, folderPath = ''0'', lengthOpt = None\<rparr>
     [openTab ''t'' (Some (UserCollection ''0'' 2))]
   = Inr [openTab ''t'' (Some (UserCollection ''0'' 2))] \<and>
   resolveSaveContextOnCollectionReorder
     \<lparr>lastIndex = 1, newIndex = 2, folderPath = ''0'', lengthOpt = None\<rparr> Remove
     [openTab ''t'' (Some (UserCollection ''0/2'' 0))]
   = Inr [openTab ''t'' (Some (UserCollection ''0/2'' 0))]"
  using reorder_decrement_and_noop
    [of "\<lparr>lastIndex = 1, newIndex = 3, folderPath = ''0'', lengthOpt = None\<rparr>"
        "[openTab ''t'' (Some (UserCollection ''0'' 2))]" Remove]
    reorder_decrement_and_noop
    [of "\<lparr>lastIndex = 1, newIndex = 2, folderPath = ''0'', lengthOpt = None\<rparr>"
        "[openTab ''t'' (Some (UserCollection ''0'' 2))]" Remove]
    reorder_decrement_and_noop
    [of "\<lparr>lastIndex = 1, newIndex = 2, folderPath = ''0'', lengthOpt = None\<rparr>"
        "[openTab ''t'' (Some (UserCollection ''0/2'' 0))]" Remove]
  by (simp add: adjustNewIndex_def requestReorderTabs_def requestReorderSelects_def
      requestReorderUpdate_def getAffectedIndexes_def openTab_def)

lemma deletion_indexes_eq:
  assumes "lastIdx \<le> len"
  shows "AList.delete lastIdx (getAffectedIndexes lastIdx len) =
           map (\<lambda>i. (i, i - 1)) [lastIdx + 1 .. len]"
proof (cases "lastIdx < len")
  case True
  have "filter (\<lambda>(k', _). lastIdx \<noteq> k') (map (\<lambda>i. (i, i - 1)) [lastIdx + 1 .. len]) =
          map (\<lambda>i. (i, i - 1)) [lastIdx + 1 .. len]"
    by (rule filter_True) auto
  with True show ?thesis
    by (simp add: getAffectedIndexes_def AList.delete_eq)
next
  case False
  with assms have "len = lastIdx" by simp
  then show ?thesis
    by (simp add: getAffectedIndexes_def AList.delete_eq)
qed

lemma map_of_shift_down:
  "map_of (map (\<lambda>i. (i, i - 1)) [a .. b]) k = (if a \<le> k \<and> k \<le> b then Some (k - 1) else None)"
  by (simp add: map_of_map_restrict restrict_map_def)

text \<open>
  C2 (as amended). For a deletion (\<open>newIndex = -1\<close>) at a position \<open>lastIndex\<close> with
  \<open>0 \<le> lastIndex \<le> length\<close>, the map the resolvers go on with has the key set
  \<open>{lastIndex + 1, \<dots>, length}\<close>, maps every key to one less than itself, and has no
  entry for \<open>lastIndex\<close>; both resolvers apply exactly this map. The range is inclusive
  of \<open>length\<close> itself, the position one past the last sibling when \<open>length\<close> is the
  sibling count.
\<close>

theorem deletion_affected_indexes:
  assumes "0 \<le> lastIndex p" and "newIndex p = - 1" and "lengthOpt p = Some len"
    and "lastIndex p \<le> len"
  shows "\<exists>m. affectedIndexesFor (lastIndex p) (adjustNewIndex (lastIndex p) (newIndex p))
                (lengthOpt p) = Inr m \<and>
             dom (map_of m) = {lastIndex p + 1 .. len} \<and>
             (\<forall>k \<in> {lastIndex p + 1 .. len}. map_of m k = Some (k - 1)) \<and>
             map_of m (lastIndex p) = None \<and>
             resolveSaveContextOnRequestReorder p tabs =
               Inr (requestReorderTabs (folderPath p) m tabs) \<and>
             resolveSaveContextOnCollectionReorder p type tabs =
               Inr (collectionReorderTabs (affectedPathsOf (folderPath p) m)
                      (if type = Remove
                       then resetSaveContextForAffectedRequests
                              (deletedPath (folderPath p) (lastIndex p)) tabs
                       else tabs))"
proof -
  let ?m = "map (\<lambda>i. (i, i - 1)) [lastIndex p + 1 .. len]"
  have adj: "adjustNewIndex (lastIndex p) (newIndex p) = - 1"
    using assms(1,2) by (simp add: adjustNewIndex_def)
  have m: "affectedIndexesFor (lastIndex p) (- 1) (lengthOpt p) = Inr ?m"
    using assms(3,4) by (simp add: affectedIndexesFor_def deletion_indexes_eq)
  have d: "dom (map_of ?m) = {lastIndex p + 1 .. len}"
    by (auto simp: dom_def map_of_shift_down)
  have ne: "lastIndex p \<noteq> - 1" using assms(1) by simp
  have "resolveSaveContextOnRequestReorder p tabs = Inr (requestReorderTabs (folderPath p) ?m tabs)"
    using ne by (simp add: resolveSaveContextOnRequestReorder_def adj m)
  moreover have "resolveSaveContextOnCollectionReorder p type tabs =
               Inr (collectionReorderTabs (affectedPathsOf (folderPath p) ?m)
                      (if type = Remove
                       then resetSaveContextForAffectedRequests
                              (deletedPath (folderPath p) (lastIndex p)) tabs
                       else tabs))"
    using ne by (simp add: resolveSaveContextOnCollectionReorder_def adj m)
  ultimately show ?thesis
    using m d by (simp add: adj map_of_shift_down)
qed

theorem deletion_affected_indexes_witness:
  "(0::int) \<le> 1 \<and> (1::int) \<le> 3 \<and>
   affectedIndexesFor 1 (adjustNewIndex 1 (- 1)) (Some 3) = Inr [(2, 1), (3, 2)] \<and>
   resolveSaveContextOnRequestReorder
     \<lparr>lastIndex = 1, newIndex = - 1, folderPath = ''0'', lengthOpt = Some 3\<rparr>
     [openTab ''a'' (Some (UserCollection ''0'' 0)), openTab ''b'' (Some (UserCollection ''0'' 2)),
      openTab ''c'' (Some (UserCollection ''0'' 3))]
   = Inr [openTab ''a'' (Some (UserCollection ''0'' 0)), openTab ''b'' (Some (UserCollection ''0'' 1)),
      openTab ''c'' (Some (UserCollection ''0'' 2))]"
  using deletion_affected_indexes
    [of "\<lparr>lastIndex = 1, newIndex = - 1, folderPath = ''0'', lengthOpt = Some 3\<rparr>" 3
        "[openTab ''a'' (Some (UserCollection ''0'' 0)), openTab ''b'' (Some (UserCollection ''0'' 2)),
          openTab ''c'' (Some (UserCollection ''0'' 3))]" Remove]
  by (simp add: adjustNewIndex_def affectedIndexesFor_def getAffectedIndexes_def
      requestReorderTabs_def requestReorderSelects_def requestReorderUpdate_def openTab_def)

text \<open>
  C2 as stated gives the key set \<open>{lastIndex + 1, \<dots>, length - 1}\<close>. Deleting position 1
  with \<open>length = 3\<close> leaves the keys 2 and 3.
\<close>

theorem deletion_key_set_counterexample:
  "affectedIndexesFor 1 (adjustNewIndex 1 (- 1)) (Some 3) = Inr [(2, 1), (3, 2)] \<and>
   dom (map_of [(2::int, 1::int), (3, 2)]) \<noteq> {1 + 1 .. 3 - 1}"
  by (auto simp add: adjustNewIndex_def affectedIndexesFor_def getAffectedIndexes_def)

lemma startsWith_append: "startsWith (p @ s) p"
  by (induction p) auto

lemma startsWith_appendD: "startsWith s (p @ q) \<Longrightarrow> startsWith s p"
  by (induction s p rule: startsWith.induct) auto

lemma startsWith_iff_append: "startsWith s p \<longleftrightarrow> (\<exists>r. s = p @ r)"
  by (induction s p rule: startsWith.induct) auto

lemma at_or_under_startsWith: "isAtOrUnder fp d \<Longrightarrow> startsWith fp d"
  unfolding isAtOrUnder_def
  using startsWith_append [of d "[]"] startsWith_appendD [of fp d "''/''"] by auto

lemma teardown_nth:
  "i < length tabs \<Longrightarrow>
   resetSaveContextForAffectedRequests d tabs ! i =
     (if savedUnder d (tabs ! i) then (tabs ! i)\<lparr>saveContext := None, isDirty := True\<rparr>
      else tabs ! i)"
  by (simp add: resetSaveContextForAffectedRequests_def)

text \<open>
  What holds of the teardown for the deleted subtree itself: a tab whose folder path is
  the deleted path or continues it with a further segment ends with no save context and
  the dirty flag set, and the reindexing that follows does not touch it any more.
\<close>

lemma collection_delete_clears_tabs_at_or_under:
  assumes "0 \<le> lastIndex p" and "newIndex p = - 1" and "lengthOpt p = Some len"
    and "i < length tabs"
    and "saveContext (tabs ! i) = Some (UserCollection fp requestIndex)"
    and "isAtOrUnder fp (deletedPath (folderPath p) (lastIndex p))"
  shows "\<exists>tabs'. resolveSaveContextOnCollectionReorder p Remove tabs = Inr tabs' \<and>
           length tabs' = length tabs \<and>
           tabs' ! i = (tabs ! i)\<lparr>saveContext := None, isDirty := True\<rparr>"
proof -
  let ?d = "deletedPath (folderPath p) (lastIndex p)"
  let ?m = "AList.delete (lastIndex p) (getAffectedIndexes (lastIndex p) len)"
  let ?tabs1 = "resetSaveContextForAffectedRequests ?d tabs"
  have adj: "adjustNewIndex (lastIndex p) (newIndex p) = - 1"
    using assms(1,2) by (simp add: adjustNewIndex_def)
  have ne: "lastIndex p \<noteq> - 1" using assms(1) by simp
  have res: "resolveSaveContextOnCollectionReorder p Remove tabs =
          Inr (collectionReorderTabs (affectedPathsOf (folderPath p) ?m) ?tabs1)"
    using ne assms(3)
    by (simp add: resolveSaveContextOnCollectionReorder_def adj affectedIndexesFor_def)
  have "savedUnder ?d (tabs ! i)"
    using assms(5) at_or_under_startsWith [OF assms(6)] by (simp add: savedUnder_def)
  then have cleared: "?tabs1 ! i = (tabs ! i)\<lparr>saveContext := None, isDirty := True\<rparr>"
    using assms(4) by (simp add: teardown_nth)
  have len1: "length ?tabs1 = length tabs"
    by (simp add: resetSaveContextForAffectedRequests_def)
  have "collectionReorderTabs (affectedPathsOf (folderPath p) ?m) ?tabs1 ! i =
          (tabs ! i)\<lparr>saveContext := None, isDirty := True\<rparr>"
    using assms(4) len1 cleared
    by (simp add: collectionReorderTabs_def collectionReorderSelects_def)
  moreover have "length (collectionReorderTabs (affectedPathsOf (folderPath p) ?m) ?tabs1) = length tabs"
    using len1 by (simp add: collectionReorderTabs_def)
  ultimately show ?thesis using res by simp
qed

text \<open>
  C3. Deleting the collection at \<open>"0/1"\<close> (folder path \<open>"0"\<close>, position 1) clears the tab
  saved at \<open>"0/1/2"\<close> and leaves the tab at \<open>"0/2"\<close> to the reindexing, as the claim says;
  but the teardown also clears the tab saved at \<open>"0/10"\<close>, which lies outside the deleted
  subtree, because the comparison is \<open>startsWith\<close> on the raw strings.
\<close>

theorem teardown_clears_prefix_sibling:
  "deletedPath ''0'' 1 = ''0/1'' \<and>
   resetSaveContextForAffectedRequests ''0/1''
     [openTab ''a'' (Some (UserCollection ''0/1/2'' 0)),
      openTab ''b'' (Some (UserCollection ''0/2'' 0)),
      openTab ''c'' (Some (UserCollection ''0/10'' 0))]
   = [(openTab ''a'' None)\<lparr>isDirty := True\<rparr>,
      openTab ''b'' (Some (UserCollection ''0/2'' 0)),
      (openTab ''c'' None)\<lparr>isDirty := True\<rparr>] \<and>
   resolveSaveContextOnCollectionReorder
     \<lparr>lastIndex = 1, newIndex = - 1, folderPath = ''0'', lengthOpt = Some 10\<rparr> Remove
     [openTab ''a'' (Some (UserCollection ''0/1/2'' 0)),
      openTab ''c'' (Some (UserCollection ''0/10'' 0))]
   = Inr [(openTab ''a'' None)\<lparr>isDirty := True\<rparr>, (openTab ''c'' None)\<lparr>isDirty := True\<rparr>]"
  by (simp add: deletedPath_def toString_def natToString.simps
      resetSaveContextForAffectedRequests_def savedUnder_def openTab_def
      resolveSaveContextOnCollectionReorder_def adjustNewIndex_def affectedIndexesFor_def
      collectionReorderTabs_def collectionReorderSelects_def Let_def)

text \<open>
  C10. The teardown compares paths by raw string prefix, so a tab that is neither at nor
  under the deleted node can be torn down: deleting the collection \<open>"0/1"\<close> clears the
  save context and sets the dirty flag of a tab saved in folder \<open>"0/10"\<close>, and of a tab
  whose request identifier \<open>"0/10/4"\<close> places it in that folder.
\<close>

theorem collection_delete_tears_down_sibling_subtree:
  "isAtOrUnder ''0/10'' ''0/1'' = False \<and>
   isAtOrUnder ''0/10'' (collectionIDOf ''0/10/4'') = True \<and>
   isAtOrUnder (collectionIDOf ''0/10/4'') ''0/1'' = False \<and>
   resolveSaveContextOnCollectionReorder
     \<lparr>lastIndex = 1, newIndex = - 1, folderPath = ''0'', lengthOpt = Some 10\<rparr> Remove
     [openTab ''a'' (Some (UserCollection ''0/10'' 0)),
      openTab ''b'' (Some (WorkspaceUserCollection ''0/10'' ''0/10/4''))]
   = Inr [(openTab ''a'' None)\<lparr>isDirty := True\<rparr>, (openTab ''b'' None)\<lparr>isDirty := True\<rparr>]"
  by (simp add: isAtOrUnder_def collectionIDOf_def
      resolveSaveContextOnCollectionReorder_def adjustNewIndex_def affectedIndexesFor_def
      deletedPath_def toString_def natToString.simps
      resetSaveContextForAffectedRequests_def savedUnder_def openTab_def
      collectionReorderTabs_def collectionReorderSelects_def Let_def)

text \<open>
  C4. Moving the request at position 3 of folder \<open>"0"\<close> to position 1 maps position 2 to 3.
  The tab whose \<open>"workspace-user-collection"\<close> save context has the request identifier
  \<open>"0/2"\<close> is selected by the resolver, yet its identifier is not rewritten to \<open>"0/3"\<close>:
  the loop writes \<open>"user-collection"\<close> save contexts only.
\<close>

theorem request_reorder_leaves_workspace_request_id:
  "map_of (getAffectedIndexes 3 1) 2 = Some 3 \<and>
   collectionIDOf ''0/2'' = ''0'' \<and>
   parseInt (trailingSegment ''0/2'') = Some 2 \<and>
   requestReorderSelects ''0'' (getAffectedIndexes 3 1)
     (openTab ''w'' (Some (WorkspaceUserCollection ''0'' ''0/2''))) \<and>
   resolveSaveContextOnRequestReorder
     \<lparr>lastIndex = 3, newIndex = 1, folderPath = ''0'', lengthOpt = None\<rparr>
     [openTab ''u'' (Some (UserCollection ''0'' 2)),
      openTab ''w'' (Some (WorkspaceUserCollection ''0'' ''0/2''))]
   = Inr [openTab ''u'' (Some (UserCollection ''0'' 3)),
          openTab ''w'' (Some (WorkspaceUserCollection ''0'' ''0/2''))]"
  by (simp add: getAffectedIndexes_def collectionIDOf_def trailingSegment_def parseInt_def
      digitValue_def isWhiteSpace_def requestReorderSelects_def requestReorderUpdate_def
      requestReorderTabs_def resolveSaveContextOnRequestReorder_def adjustNewIndex_def
      affectedIndexesFor_def openTab_def upto_rec1)

section \<open>Propagation of inherited properties\<close>

lemma close_eq_path_iff:
  "path = folderPathCloseToSaveContext cached path sp \<longleftrightarrow> \<not> strictlyCloser cached path sp"
  by (auto simp: folderPathCloseToSaveContext_def strictlyCloser_def Let_def split: option.splits)

lemma effectedByAuth_iff:
  assumes "inheritSelects ws path t" and "ownSavePath t = Some sp"
  shows "effectedByAuth ws path t \<longleftrightarrow> \<not> strictlyCloser (cachedAuthParentID t) path sp"
  using assms
  by (auto simp: effectedByAuth_def inheritSelects_def savedUnder_def ownSavePath_def
      close_eq_path_iff split: workspace.splits option.splits saveContext.splits)

lemma updateInheritedTab_auth:
  "map_option auth (inheritedProperties (updateInheritedTab ws path newProps t)) =
     (if effectedByAuth ws path t then Some (auth newProps)
      else map_option auth (inheritedProperties t))"
  by (auto simp: updateInheritedTab_def Let_def split: option.splits)

lemma commonPrefixLength_le_countMatches:
  "commonPrefixLength xs ys \<le> countMatches xs ys"
  by (induction xs ys rule: countMatches.induct) auto

lemma countMatches_of_prefix:
  "countMatches xs (xs @ zs) = length xs \<and> commonPrefixLength xs (xs @ zs) = length xs"
  by (induction xs) auto

text \<open>
  C5 (as amended). Among the tabs saved under the mutated path, the auth filter selects
  exactly those whose cached inherited-auth source path is not strictly closer to the
  tab's own save-context path than the mutated path, and those tabs have their inherited
  properties replaced by the new ones (the others keep their cached authentication).
  Closeness is the number of positions, counted from the root, at which a segment of the
  path equals the segment of the save-context path at the same position; every position
  is compared, also after a mismatch. More matching segments win, a tie favours the new
  path, and an absent or empty cached path is never closer.
\<close>

theorem auth_propagation_by_segment_matches:
  assumes "inheritSelects ws path t" and "ownSavePath t = Some sp"
  shows "(effectedByAuth ws path t \<longleftrightarrow> \<not> strictlyCloser (cachedAuthParentID t) path sp) \<and>
         (\<not> strictlyCloser (cachedAuthParentID t) path sp \<and> \<not> effectedByHeaders path t \<longrightarrow>
            updateInheritedTab ws path newProps t = t\<lparr>inheritedProperties := Some newProps\<rparr>) \<and>
         (strictlyCloser (cachedAuthParentID t) path sp \<and> \<not> effectedByHeaders path t \<longrightarrow>
            updateInheritedTab ws path newProps t = t) \<and>
         map_option auth (inheritedProperties (updateInheritedTab ws path newProps t)) =
           (if strictlyCloser (cachedAuthParentID t) path sp
            then map_option auth (inheritedProperties t)
            else Some (auth newProps))"
  using effectedByAuth_iff [OF assms] updateInheritedTab_auth [of ws path newProps t]
  by (auto simp: updateInheritedTab_def Let_def)

theorem auth_propagation_by_segment_matches_witness:
  "inheritSelects Personal ''0/1''
     \<lparr>tabId = ''t'', saveContext = Some (UserCollection ''0/1/2'' 0), isDirty = False,
      inheritedProperties = Some \<lparr>auth = \<lparr>authParentID = ''0'', authParentName = ''root'',
        inheritedAuth = AuthBearer True ''old''\<rparr>, headers = []\<rparr>\<rparr> \<and>
   ownSavePath
     \<lparr>tabId = ''t'', saveContext = Some (UserCollection ''0/1/2'' 0), isDirty = False,
      inheritedProperties = Some \<lparr>auth = \<lparr>authParentID = ''0'', authParentName = ''root'',
        inheritedAuth = AuthBearer True ''old''\<rparr>, headers = []\<rparr>\<rparr> = Some ''0/1/2'' \<and>
   strictlyCloser (Some ''0'') ''0/1'' ''0/1/2'' = False \<and>
   updateInheritedTab Personal ''0/1''
     \<lparr>auth = \<lparr>authParentID = ''0/1'', authParentName = ''folder'',
        inheritedAuth = AuthBasic True ''u'' ''p''\<rparr>, headers = []\<rparr>
     \<lparr>tabId = ''t'', saveContext = Some (UserCollection ''0/1/2'' 0), isDirty = False,
      inheritedProperties = Some \<lparr>auth = \<lparr>authParentID = ''0'', authParentName = ''root'',
        inheritedAuth = AuthBearer True ''old''\<rparr>, headers = []\<rparr>\<rparr>
   = \<lparr>tabId = ''t'', saveContext = Some (UserCollection ''0/1/2'' 0), isDirty = False,
      inheritedProperties = Some \<lparr>auth = \<lparr>authParentID = ''0/1'', authParentName = ''folder'',
        inheritedAuth = AuthBasic True ''u'' ''p''\<rparr>, headers = []\<rparr>\<rparr> \<and>
   inheritSelects Personal ''0''
     \<lparr>tabId = ''t'', saveContext = Some (UserCollection ''0/1/2'' 0), isDirty = False,
      inheritedProperties = Some \<lparr>auth = \<lparr>authParentID = ''0/1'', authParentName = ''folder'',
        inheritedAuth = AuthBearer True ''old''\<rparr>, headers = []\<rparr>\<rparr> \<and>
   strictlyCloser (Some ''0/1'') ''0'' ''0/1/2'' = True \<and>
   updateInheritedTab Personal ''0''
     \<lparr>auth = \<lparr>authParentID = ''0'', authParentName = ''root'',
        inheritedAuth = AuthBasic True ''u'' ''p''\<rparr>, headers = []\<rparr>
     \<lparr>tabId = ''t'', saveContext = Some (UserCollection ''0/1/2'' 0), isDirty = False,
      inheritedProperties = Some \<lparr>auth = \<lparr>authParentID = ''0/1'', authParentName = ''folder'',
        inheritedAuth = AuthBearer True ''old''\<rparr>, headers = []\<rparr>\<rparr>
   = \<lparr>tabId = ''t'', saveContext = Some (UserCollection ''0/1/2'' 0), isDirty = False,
      inheritedProperties = Some \<lparr>auth = \<lparr>authParentID = ''0/1'', authParentName = ''folder'',
        inheritedAuth = AuthBearer True ''old''\<rparr>, headers = []\<rparr>\<rparr>"
  using auth_propagation_by_segment_matches
    [of Personal "''0/1''"
      "\<lparr>tabId = ''t'', saveContext = Some (UserCollection ''0/1/2'' 0), isDirty = False,
      inheritedProperties = Some \<lparr>auth = \<lparr>authParentID = ''0'', authParentName = ''root'',
        inheritedAuth = AuthBearer True ''old''\<rparr>, headers = []\<rparr>\<rparr>" "''0/1/2''"
      "\<lparr>auth = \<lparr>authParentID = ''0/1'', authParentName = ''folder'',
        inheritedAuth = AuthBasic True ''u'' ''p''\<rparr>, headers = []\<rparr>"]
    auth_propagation_by_segment_matches
    [of Personal "''0''"
      "\<lparr>tabId = ''t'', saveContext = Some (UserCollection ''0/1/2'' 0), isDirty = False,
      inheritedProperties = Some \<lparr>auth = \<lparr>authParentID = ''0/1'', authParentName = ''folder'',
        inheritedAuth = AuthBearer True ''old''\<rparr>, headers = []\<rparr>\<rparr>" "''0/1/2''"
      "\<lparr>auth = \<lparr>authParentID = ''0'', authParentName = ''root'',
        inheritedAuth = AuthBasic True ''u'' ''p''\<rparr>, headers = []\<rparr>"]
  by (simp add: inheritSelects_def savedUnder_def ownSavePath_def strictlyCloser_def
      cachedAuthParentID_def effectedByHeaders_def)

text \<open>
  C5 as stated measures closeness by the longest common prefix. A tab saved at
  \<open>"0/1/2"\<close> whose cached source path is \<open>"1/1/2"\<close> shares no prefix with it, while the
  mutated path \<open>"0"\<close> shares one segment; by that measure the cached path is not closer
  and the tab would be replaced. The code counts two matching positions for the cached
  path against one for \<open>"0"\<close> and leaves the tab as it is.
\<close>

theorem closeness_is_not_longest_common_prefix_counterexample:
  "inheritSelects Personal ''0''
     \<lparr>tabId = ''t'', saveContext = Some (UserCollection ''0/1/2'' 0), isDirty = False,
      inheritedProperties = Some \<lparr>auth = \<lparr>authParentID = ''1/1/2'', authParentName = ''folder'',
        inheritedAuth = AuthBearer True ''old''\<rparr>, headers = []\<rparr>\<rparr> \<and>
   commonPrefixLength (splitOn CHR ''/'' ''1/1/2'') (splitOn CHR ''/'' ''0/1/2'') = 0 \<and>
   commonPrefixLength (splitOn CHR ''/'' ''0'') (splitOn CHR ''/'' ''0/1/2'') = 1 \<and>
   strictlyCloserByPrefix (Some ''1/1/2'') ''0'' ''0/1/2'' = False \<and>
   updateInheritedTabs Personal ''0''
     \<lparr>auth = \<lparr>authParentID = ''0'', authParentName = ''root'',
        inheritedAuth = AuthBasic True ''u'' ''p''\<rparr>, headers = []\<rparr>
     [\<lparr>tabId = ''t'', saveContext = Some (UserCollection ''0/1/2'' 0), isDirty = False,
      inheritedProperties = Some \<lparr>auth = \<lparr>authParentID = ''1/1/2'', authParentName = ''folder'',
        inheritedAuth = AuthBearer True ''old''\<rparr>, headers = []\<rparr>\<rparr>]
   = [\<lparr>tabId = ''t'', saveContext = Some (UserCollection ''0/1/2'' 0), isDirty = False,
      inheritedProperties = Some \<lparr>auth = \<lparr>authParentID = ''1/1/2'', authParentName = ''folder'',
        inheritedAuth = AuthBearer True ''old''\<rparr>, headers = []\<rparr>\<rparr>]"
  by (simp add: inheritSelects_def savedUnder_def strictlyCloserByPrefix_def
      updateInheritedTabs_def updateInheritedTab_def effectedByAuth_def effectedByHeaders_def
      cachedAuthParentID_def folderPathCloseToSaveContext_def Let_def)

lemma refreshHeader_nth:
  "i < length hs \<Longrightarrow>
   map (refreshHeader path newHeaders) hs ! i =
     (if parentID (hs ! i) = path
      then (hs ! i)\<lparr>inheritedHeader := findInheritedHeader newHeaders (hs ! i)\<rparr>
      else hs ! i)"
  by (simp add: refreshHeader_def)

text \<open>
  C6 (as amended). For a tab saved under the mutated path that the auth filter does not
  select and whose cached inherited-header list has an entry tagged with the mutated
  path, every entry tagged with that path gets the header of the first entry of the new
  list with the same key, every entry tagged with another path is unchanged, and so are
  the cached authentication and the rest of the tab.
\<close>

theorem header_refresh_without_auth_replacement:
  assumes "inheritSelects ws path t" and "\<not> effectedByAuth ws path t"
    and "inheritedProperties t = Some ip" and "effectedByHeaders path t"
  shows "\<exists>ip'. updateInheritedTab ws path newProps t = t\<lparr>inheritedProperties := Some ip'\<rparr> \<and>
           auth ip' = auth ip \<and>
           length (headers ip') = length (headers ip) \<and>
           (\<forall>i < length (headers ip).
              headers ip' ! i =
                (if parentID (headers ip ! i) = path
                 then (headers ip ! i)\<lparr>inheritedHeader :=
                        findInheritedHeader (headers newProps) (headers ip ! i)\<rparr>
                 else headers ip ! i))"
proof -
  let ?ip' = "ip\<lparr>headers := map (refreshHeader path (headers newProps)) (headers ip)\<rparr>"
  have "updateInheritedTab ws path newProps t = t\<lparr>inheritedProperties := Some ?ip'\<rparr>"
    using assms(2,3,4) by (simp add: updateInheritedTab_def)
  moreover have "auth ?ip' = auth ip" by simp
  moreover have "length (headers ?ip') = length (headers ip)" by simp
  moreover have "\<forall>i < length (headers ip).
              headers ?ip' ! i =
                (if parentID (headers ip ! i) = path
                 then (headers ip ! i)\<lparr>inheritedHeader :=
                        findInheritedHeader (headers newProps) (headers ip ! i)\<rparr>
                 else headers ip ! i)"
    by (simp add: refreshHeader_def)
  ultimately show ?thesis by blast
qed

theorem header_refresh_without_auth_replacement_witness:
  "inheritSelects Personal ''0''
     \<lparr>tabId = ''t'', saveContext = Some (UserCollection ''0/1/2'' 0), isDirty = False,
      inheritedProperties = Some \<lparr>auth = \<lparr>authParentID = ''0/1'', authParentName = ''cached'',
        inheritedAuth = AuthBearer True ''old''\<rparr>,
        headers = [\<lparr>parentID = ''0'', parentName = ''root'',
                     inheritedHeader = Some \<lparr>headerKey = ''A'', headerValue = ''old'', headerActive = True\<rparr>\<rparr>,
                   \<lparr>parentID = ''0/1'', parentName = ''folder'',
                     inheritedHeader = Some \<lparr>headerKey = ''B'', headerValue = ''b'', headerActive = True\<rparr>\<rparr>]\<rparr>\<rparr> \<and>
   effectedByAuth Personal ''0''
     \<lparr>tabId = ''t'', saveContext = Some (UserCollection ''0/1/2'' 0), isDirty = False,
      inheritedProperties = Some \<lparr>auth = \<lparr>authParentID = ''0/1'', authParentName = ''cached'',
        inheritedAuth = AuthBearer True ''old''\<rparr>,
        headers = [\<lparr>parentID = ''0'', parentName = ''root'',
                     inheritedHeader = Some \<lparr>headerKey = ''A'', headerValue = ''old'', headerActive = True\<rparr>\<rparr>,
                   \<lparr>parentID = ''0/1'', parentName = ''folder'',
                     inheritedHeader = Some \<lparr>headerKey = ''B'', headerValue = ''b'', headerActive = True\<rparr>\<rparr>]\<rparr>\<rparr> = False \<and>
   effectedByHeaders ''0''
     \<lparr>tabId = ''t'', saveContext = Some (UserCollection ''0/1/2'' 0), isDirty = False,
      inheritedProperties = Some \<lparr>auth = \<lparr>authParentID = ''0/1'', authParentName = ''cached'',
        inheritedAuth = AuthBearer True ''old''\<rparr>,
        headers = [\<lparr>parentID = ''0'', parentName = ''root'',
                     inheritedHeader = Some \<lparr>headerKey = ''A'', headerValue = ''old'', headerActive = True\<rparr>\<rparr>,
                   \<lparr>parentID = ''0/1'', parentName = ''folder'',
                     inheritedHeader = Some \<lparr>headerKey = ''B'', headerValue = ''b'', headerActive = True\<rparr>\<rparr>]\<rparr>\<rparr> \<and>
   updateInheritedTab Personal ''0''
     \<lparr>auth = \<lparr>authParentID = ''0'', authParentName = ''root'',
        inheritedAuth = AuthBasic True ''u'' ''p''\<rparr>,
      headers = [\<lparr>parentID = ''0'', parentName = ''root'',
                   inheritedHeader = Some \<lparr>headerKey = ''A'', headerValue = ''new'', headerActive = True\<rparr>\<rparr>]\<rparr>
     \<lparr>tabId = ''t'', saveContext = Some (UserCollection ''0/1/2'' 0), isDirty = False,
      inheritedProperties = Some \<lparr>auth = \<lparr>authParentID = ''0/1'', authParentName = ''cached'',
        inheritedAuth = AuthBearer True ''old''\<rparr>,
        headers = [\<lparr>parentID = ''0'', parentName = ''root'',
                     inheritedHeader = Some \<lparr>headerKey = ''A'', headerValue = ''old'', headerActive = True\<rparr>\<rparr>,
                   \<lparr>parentID = ''0/1'', parentName = ''folder'',
                     inheritedHeader = Some \<lparr>headerKey = ''B'', headerValue = ''b'', headerActive = True\<rparr>\<rparr>]\<rparr>\<rparr>
   = \<lparr>tabId = ''t'', saveContext = Some (UserCollection ''0/1/2'' 0), isDirty = False,
      inheritedProperties = Some \<lparr>auth = \<lparr>authParentID = ''0/1'', authParentName = ''cached'',
        inheritedAuth = AuthBearer True ''old''\<rparr>,
        headers = [\<lparr>parentID = ''0'', parentName = ''root'',
                     inheritedHeader = Some \<lparr>headerKey = ''A'', headerValue = ''new'', headerActive = True\<rparr>\<rparr>,
                   \<lparr>parentID = ''0/1'', parentName = ''folder'',
                     inheritedHeader = Some \<lparr>headerKey = ''B'', headerValue = ''b'', headerActive = True\<rparr>\<rparr>]\<rparr>\<rparr>"
  using header_refresh_without_auth_replacement
    [of Personal "''0''"
      "\<lparr>tabId = ''t'', saveContext = Some (UserCollection ''0/1/2'' 0), isDirty = False,
      inheritedProperties = Some \<lparr>auth = \<lparr>authParentID = ''0/1'', authParentName = ''cached'',
        inheritedAuth = AuthBearer True ''old''\<rparr>,
        headers = [\<lparr>parentID = ''0'', parentName = ''root'',
                     inheritedHeader = Some \<lparr>headerKey = ''A'', headerValue = ''old'', headerActive = True\<rparr>\<rparr>,
                   \<lparr>parentID = ''0/1'', parentName = ''folder'',
                     inheritedHeader = Some \<lparr>headerKey = ''B'', headerValue = ''b'', headerActive = True\<rparr>\<rparr>]\<rparr>\<rparr>"
      "\<lparr>auth = \<lparr>authParentID = ''0/1'', authParentName = ''cached'',
        inheritedAuth = AuthBearer True ''old''\<rparr>,
        headers = [\<lparr>parentID = ''0'', parentName = ''root'',
                     inheritedHeader = Some \<lparr>headerKey = ''A'', headerValue = ''old'', headerActive = True\<rparr>\<rparr>,
                   \<lparr>parentID = ''0/1'', parentName = ''folder'',
                     inheritedHeader = Some \<lparr>headerKey = ''B'', headerValue = ''b'', headerActive = True\<rparr>\<rparr>]\<rparr>"
      "\<lparr>auth = \<lparr>authParentID = ''0'', authParentName = ''root'',
        inheritedAuth = AuthBasic True ''u'' ''p''\<rparr>,
      headers = [\<lparr>parentID = ''0'', parentName = ''root'',
                   inheritedHeader = Some \<lparr>headerKey = ''A'', headerValue = ''new'', headerActive = True\<rparr>\<rparr>]\<rparr>"]
  by (simp add: inheritSelects_def savedUnder_def effectedByAuth_def effectedByHeaders_def
      cachedAuthParentID_def folderPathCloseToSaveContext_def Let_def
      updateInheritedTab_def refreshHeader_def findInheritedHeader_def)

text \<open>
  C6 as stated holds for every tab with a tagged entry, whatever the auth filter decides.
  A tab saved at \<open>"0/1/2"\<close> with cached auth source \<open>"0"\<close> is selected by the auth filter
  for the path \<open>"0"\<close>; its inherited properties become the new ones, and the cached
  header entry tagged \<open>"0/1"\<close> is gone.
\<close>

theorem auth_replacement_drops_other_ancestor_headers_counterexample:
  "inheritSelects Personal ''0''
     \<lparr>tabId = ''t'', saveContext = Some (UserCollection ''0/1/2'' 0), isDirty = False,
      inheritedProperties = Some \<lparr>auth = \<lparr>authParentID = ''0'', authParentName = ''cached'',
        inheritedAuth = AuthBearer True ''old''\<rparr>,
        headers = [\<lparr>parentID = ''0'', parentName = ''root'',
                     inheritedHeader = Some \<lparr>headerKey = ''A'', headerValue = ''old'', headerActive = True\<rparr>\<rparr>,
                   \<lparr>parentID = ''0/1'', parentName = ''folder'',
                     inheritedHeader = Some \<lparr>headerKey = ''B'', headerValue = ''b'', headerActive = True\<rparr>\<rparr>]\<rparr>\<rparr> \<and>
   effectedByHeaders ''0''
     \<lparr>tabId = ''t'', saveContext = Some (UserCollection ''0/1/2'' 0), isDirty = False,
      inheritedProperties = Some \<lparr>auth = \<lparr>authParentID = ''0'', authParentName = ''cached'',
        inheritedAuth = AuthBearer True ''old''\<rparr>,
        headers = [\<lparr>parentID = ''0'', parentName = ''root'',
                     inheritedHeader = Some \<lparr>headerKey = ''A'', headerValue = ''old'', headerActive = True\<rparr>\<rparr>,
                   \<lparr>parentID = ''0/1'', parentName = ''folder'',
                     inheritedHeader = Some \<lparr>headerKey = ''B'', headerValue = ''b'', headerActive = True\<rparr>\<rparr>]\<rparr>\<rparr> \<and>
   updateInheritedTabs Personal ''0''
     \<lparr>auth = \<lparr>authParentID = ''0'', authParentName = ''root'',
        inheritedAuth = AuthBasic True ''u'' ''p''\<rparr>,
      headers = [\<lparr>parentID = ''0'', parentName = ''root'',
                   inheritedHeader = Some \<lparr>headerKey = ''A'', headerValue = ''new'', headerActive = True\<rparr>\<rparr>]\<rparr>
     [\<lparr>tabId = ''t'', saveContext = Some (UserCollection ''0/1/2'' 0), isDirty = False,
      inheritedProperties = Some \<lparr>auth = \<lparr>authParentID = ''0'', authParentName = ''cached'',
        inheritedAuth = AuthBearer True ''old''\<rparr>,
        headers = [\<lparr>parentID = ''0'', parentName = ''root'',
                     inheritedHeader = Some \<lparr>headerKey = ''A'', headerValue = ''old'', headerActive = True\<rparr>\<rparr>,
                   \<lparr>parentID = ''0/1'', parentName = ''folder'',
                     inheritedHeader = Some \<lparr>headerKey = ''B'', headerValue = ''b'', headerActive = True\<rparr>\<rparr>]\<rparr>\<rparr>]
   = [\<lparr>tabId = ''t'', saveContext = Some (UserCollection ''0/1/2'' 0), isDirty = False,
       inheritedProperties = Some
     \<lparr>auth = \<lparr>authParentID = ''0'', authParentName = ''root'',
        inheritedAuth = AuthBasic True ''u'' ''p''\<rparr>,
      headers = [\<lparr>parentID = ''0'', parentName = ''root'',
                   inheritedHeader = Some \<lparr>headerKey = ''A'', headerValue = ''new'', headerActive = True\<rparr>\<rparr>]\<rparr>\<rparr>]"
  by (simp add: inheritSelects_def savedUnder_def effectedByAuth_def effectedByHeaders_def
      cachedAuthParentID_def folderPathCloseToSaveContext_def Let_def
      updateInheritedTabs_def updateInheritedTab_def refreshHeader_def findInheritedHeader_def)

text \<open>When the auth filter selects the tab as well, the header loop works on the header
  list of the new properties, not on the cached one.\<close>

lemma header_refresh_after_auth_replacement:
  assumes "effectedByAuth ws path t" and "effectedByHeaders path t"
  shows "updateInheritedTab ws path newProps t =
           t\<lparr>inheritedProperties :=
               Some (newProps\<lparr>headers := map (refreshHeader path (headers newProps)) (headers newProps)\<rparr>)\<rparr>"
  using assms by (simp add: updateInheritedTab_def)

section \<open>Batch update of the infrastructure configuration\<close>

lemma validateEnvValues_Inl_iff:
  "validateEnvValues v cs = Inl INFRA_CONFIG_INVALID_INPUT \<longleftrightarrow> (\<exists>c \<in> set cs. \<not> fieldValid v c)"
  by (induction cs) auto

lemma validateEnvValues_Inr_iff:
  "validateEnvValues v cs = Inr True \<longleftrightarrow> (\<forall>c \<in> set cs. fieldValid v c)"
  by (induction cs) auto

lemma fieldValid_predicates:
  "fieldValid v \<lparr>cfgName = MAILER_SMTP_URL, cfgValue = x\<rparr> = validateSMTPUrl v x"
  "fieldValid v \<lparr>cfgName = MAILER_ADDRESS_FROM, cfgValue = x\<rparr> = validateSMTPEmail v x"
  "fieldValid v \<lparr>cfgName = GOOGLE_CALLBACK_URL, cfgValue = x\<rparr> = validateUrl v x"
  "fieldValid v \<lparr>cfgName = GITHUB_CALLBACK_URL, cfgValue = x\<rparr> = validateUrl v x"
  "fieldValid v \<lparr>cfgName = MICROSOFT_CALLBACK_URL, cfgValue = x\<rparr> = validateUrl v x"
  "fieldValid v \<lparr>cfgName = GOOGLE_CLIENT_ID, cfgValue = x\<rparr> = (x \<noteq> [])"
  "fieldValid v \<lparr>cfgName = MICROSOFT_TENANT, cfgValue = x\<rparr> = (x \<noteq> [])"
  "fieldValid v \<lparr>cfgName = OtherConfig n, cfgValue = x\<rparr> = True"
  by (simp_all add: fieldValid_def)

text \<open>
  C9. \<open>updateMany\<close> validates every value with the predicate of its field (URL shape,
  email shape, non-empty) before it writes anything: if any value of the batch fails,
  the call returns \<open>INFRA_CONFIG_INVALID_INPUT\<close> and the state, rows included, is
  exactly what it was; conversely the state changes only when every value is valid.
\<close>

theorem updateMany_validates_before_writing:
  "((\<exists>c \<in> set infraConfigs. \<not> fieldValid v c) \<longrightarrow>
      updateMany v infraConfigs st = (Inl INFRA_CONFIG_INVALID_INPUT, st)) \<and>
   (snd (updateMany v infraConfigs st) \<noteq> st \<longrightarrow> (\<forall>c \<in> set infraConfigs. fieldValid v c))"
proof -
  have a: "(\<exists>c \<in> set infraConfigs. \<not> fieldValid v c) \<Longrightarrow>
      updateMany v infraConfigs st = (Inl INFRA_CONFIG_INVALID_INPUT, st)"
    using validateEnvValues_Inl_iff [of v infraConfigs] by (simp add: updateMany_def)
  show ?thesis
  proof (intro conjI impI)
    assume "\<exists>c \<in> set infraConfigs. \<not> fieldValid v c"
    then show "updateMany v infraConfigs st = (Inl INFRA_CONFIG_INVALID_INPUT, st)"
      by (rule a)
  next
    assume changed: "snd (updateMany v infraConfigs st) \<noteq> st"
    show "\<forall>c \<in> set infraConfigs. fieldValid v c"
    proof (rule ccontr)
      assume "\<not> (\<forall>c \<in> set infraConfigs. fieldValid v c)"
      then have "\<exists>c \<in> set infraConfigs. \<not> fieldValid v c" by blast
      from a [OF this] changed show False by simp
    qed
  qed
qed

theorem updateMany_validates_before_writing_witness:
  "\<not> fieldValid \<lparr>validateSMTPUrl = (\<lambda>s. True), validateSMTPEmail = (\<lambda>s. True), validateUrl = (\<lambda>s. True)\<rparr>
       \<lparr>cfgName = GOOGLE_CLIENT_ID, cfgValue = ''''\<rparr> \<and>
   updateMany \<lparr>validateSMTPUrl = (\<lambda>s. True), validateSMTPEmail = (\<lambda>s. True), validateUrl = (\<lambda>s. True)\<rparr>
     [\<lparr>cfgName = GOOGLE_SCOPE, cfgValue = ''email''\<rparr>, \<lparr>cfgName = GOOGLE_CLIENT_ID, cfgValue = ''''\<rparr>]
     \<lparr>rows = [GOOGLE_SCOPE \<mapsto> ''profile'', GOOGLE_CLIENT_ID \<mapsto> ''id''], stopped = False\<rparr>
   = (Inl INFRA_CONFIG_INVALID_INPUT,
      \<lparr>rows = [GOOGLE_SCOPE \<mapsto> ''profile'', GOOGLE_CLIENT_ID \<mapsto> ''id''], stopped = False\<rparr>) \<and>
   snd (updateMany \<lparr>validateSMTPUrl = (\<lambda>s. True), validateSMTPEmail = (\<lambda>s. True), validateUrl = (\<lambda>s. True)\<rparr>
     [\<lparr>cfgName = GOOGLE_SCOPE, cfgValue = ''email''\<rparr>]
     \<lparr>rows = [GOOGLE_SCOPE \<mapsto> ''profile'', GOOGLE_CLIENT_ID \<mapsto> ''id''], stopped = False\<rparr>)
   = \<lparr>rows = [GOOGLE_SCOPE \<mapsto> ''email'', GOOGLE_CLIENT_ID \<mapsto> ''id''], stopped = True\<rparr> \<and>
   fieldValid \<lparr>validateSMTPUrl = (\<lambda>s. True), validateSMTPEmail = (\<lambda>s. True), validateUrl = (\<lambda>s. True)\<rparr>
       \<lparr>cfgName = GOOGLE_SCOPE, cfgValue = ''email''\<rparr>"
  using updateMany_validates_before_writing
    [of "[\<lparr>cfgName = GOOGLE_SCOPE, cfgValue = ''email''\<rparr>, \<lparr>cfgName = GOOGLE_CLIENT_ID, cfgValue = ''''\<rparr>]"
        "\<lparr>validateSMTPUrl = (\<lambda>s. True), validateSMTPEmail = (\<lambda>s. True), validateUrl = (\<lambda>s. True)\<rparr>"
        "\<lparr>rows = [GOOGLE_SCOPE \<mapsto> ''profile'', GOOGLE_CLIENT_ID \<mapsto> ''id''], stopped = False\<rparr>"]
    updateMany_validates_before_writing
    [of "[\<lparr>cfgName = GOOGLE_SCOPE, cfgValue = ''email''\<rparr>]"
        "\<lparr>validateSMTPUrl = (\<lambda>s. True), validateSMTPEmail = (\<lambda>s. True), validateUrl = (\<lambda>s. True)\<rparr>"
        "\<lparr>rows = [GOOGLE_SCOPE \<mapsto> ''profile'', GOOGLE_CLIENT_ID \<mapsto> ''id''], stopped = False\<rparr>"]
  by (auto simp add: fieldValid_def updateMany_def fun_eq_iff)

section \<open>The Insomnia importer\<close>

lemma those_None_iff: "those xs = None \<longleftrightarrow> None \<in> set xs"
  by (induction xs) (auto split: option.splits)

lemma those_map_Some: "those (map Some xs) = Some xs"
  by (induction xs) auto

text \<open>
  C7 (as amended). The importer has no partial-success mode: the documents are parsed one
  after the other, and when any one of them fails to parse the whole batch is rejected
  with \<open>IMPORTER_INVALID_FILE_FORMAT\<close>, whatever the other documents hold. When every
  document parses, the outcome is the collections of all the documents, none or more for
  each.
\<close>

theorem importer_all_or_nothing:
  "((\<exists>c \<in> set fileContents. convert c = None) \<longrightarrow>
      hoppInsomniaImporter convert kct depth fileContents = Some (Inl IMPORTER_INVALID_FILE_FORMAT)) \<and>
   (map convert fileContents = map Some docs \<longrightarrow>
      hoppInsomniaImporter convert kct depth fileContents =
        map_option Inr (getHoppCollections kct depth docs))"
proof (intro conjI impI)
  assume "\<exists>c \<in> set fileContents. convert c = None"
  then have "None \<in> set (map (parseInsomniaDoc convert) fileContents)"
    by (force simp: parseInsomniaDoc_def)
  then have "those (map (parseInsomniaDoc convert) fileContents) = None"
    by (simp only: those_None_iff)
  then show "hoppInsomniaImporter convert kct depth fileContents = Some (Inl IMPORTER_INVALID_FILE_FORMAT)"
    by (simp add: hoppInsomniaImporter_def)
next
  assume "map convert fileContents = map Some docs"
  then have "those (map (parseInsomniaDoc convert) fileContents) = Some docs"
    by (simp add: parseInsomniaDoc_def [abs_def] those_map_Some)
  then show "hoppInsomniaImporter convert kct depth fileContents =
        map_option Inr (getHoppCollections kct depth docs)"
    by (simp add: hoppInsomniaImporter_def)
qed

theorem importer_all_or_nothing_witness:
  "hoppInsomniaImporter
     (\<lambda>s. if s = ''good'' then Some \<lparr>resources =
        [\<lparr>resId = Some ''wrk_1'', resType = ''workspace'', resParentId = ParentNull,
          resName = Some ''Demo'', resUrl = None, resMethod = None, resAuthentication = None,
          resBody = None, resHeaders = None, resParameters = None\<rparr>]\<rparr> else None)
     [] 1 [''good'', ''bad''] = Some (Inl IMPORTER_INVALID_FILE_FORMAT) \<and>
   hoppInsomniaImporter
     (\<lambda>s. if s = ''good'' then Some \<lparr>resources =
        [\<lparr>resId = Some ''wrk_1'', resType = ''workspace'', resParentId = ParentNull,
          resName = Some ''Demo'', resUrl = None, resMethod = None, resAuthentication = None,
          resBody = None, resHeaders = None, resParameters = None\<rparr>]\<rparr> else None)
     [] 1 [''good'', ''good''] =
     Some (Inr [Collection ''Demo'' [] [] (AuthInherit True) [],
                Collection ''Demo'' [] [] (AuthInherit True) []])"
  using importer_all_or_nothing
    [where fileContents = "[''good'', ''bad'']" and kct = "[]" and depth = 1 and docs = "[]"
       and convert = "(\<lambda>s. if s = ''good'' then Some \<lparr>resources =
        [\<lparr>resId = Some ''wrk_1'', resType = ''workspace'', resParentId = ParentNull,
          resName = Some ''Demo'', resUrl = None, resMethod = None, resAuthentication = None,
          resBody = None, resHeaders = None, resParameters = None\<rparr>]\<rparr> else None)"]
    importer_all_or_nothing
    [where fileContents = "[''good'', ''good'']" and kct = "[]" and depth = 1
       and docs = "[\<lparr>resources =
        [\<lparr>resId = Some ''wrk_1'', resType = ''workspace'', resParentId = ParentNull,
          resName = Some ''Demo'', resUrl = None, resMethod = None, resAuthentication = None,
          resBody = None, resHeaders = None, resParameters = None\<rparr>]\<rparr>,
          \<lparr>resources =
        [\<lparr>resId = Some ''wrk_1'', resType = ''workspace'', resParentId = ParentNull,
          resName = Some ''Demo'', resUrl = None, resMethod = None, resAuthentication = None,
          resBody = None, resHeaders = None, resParameters = None\<rparr>]\<rparr>]"
       and convert = "(\<lambda>s. if s = ''good'' then Some \<lparr>resources =
        [\<lparr>resId = Some ''wrk_1'', resType = ''workspace'', resParentId = ParentNull,
          resName = Some ''Demo'', resUrl = None, resMethod = None, resAuthentication = None,
          resBody = None, resHeaders = None, resParameters = None\<rparr>]\<rparr> else None)"]
  by (simp add: getHoppCollections_def getFoldersIn_def getRequestsIn_def isChildOf_def orEmpty_def)

text \<open>
  C7 as stated has a malformed document rejected on its own. A document that parses
  into one collection is imported when it is alone, and rejected with the batch when a
  malformed document comes after it.
\<close>

theorem importer_rejects_whole_batch_counterexample:
  "hoppInsomniaImporter
     (\<lambda>s. if s = ''good'' then Some \<lparr>resources =
        [\<lparr>resId = Some ''wrk_1'', resType = ''workspace'', resParentId = ParentNull,
          resName = Some ''Demo'', resUrl = None, resMethod = None, resAuthentication = None,
          resBody = None, resHeaders = None, resParameters = None\<rparr>]\<rparr> else None)
     [] 1 [''good''] = Some (Inr [Collection ''Demo'' [] [] (AuthInherit True) []]) \<and>
   hoppInsomniaImporter
     (\<lambda>s. if s = ''good'' then Some \<lparr>resources =
        [\<lparr>resId = Some ''wrk_1'', resType = ''workspace'', resParentId = ParentNull,
          resName = Some ''Demo'', resUrl = None, resMethod = None, resAuthentication = None,
          resBody = None, resHeaders = None, resParameters = None\<rparr>]\<rparr> else None)
     [] 1 [''good'', ''bad''] = Some (Inl IMPORTER_INVALID_FILE_FORMAT)"
  by (simp add: hoppInsomniaImporter_def parseInsomniaDoc_def getHoppCollections_def
      getFoldersIn_def getRequestsIn_def isChildOf_def orEmpty_def)

lemma getHoppReqAuth_basic_unset:
  assumes "resAuthentication r = Some a" and "insoType a = Some ''basic''"
    and "username a = None" and "password a = None"
  shows "getHoppReqAuth r = AuthBasic True [] []"
  using assms by (simp add: getHoppReqAuth_def orEmpty_def replaceVarTemplating_def)

text \<open>
  C8. A document whose resources are one top-level group and one request in that group,
  the request with \<open>basic\<close> authentication and neither user name nor password, is imported
  as one collection with no folders and one request, and the authentication of that
  request is \<open>basic\<close>, active, with the empty string for both user name and password.
  One level of descent is enough for the import to return.
\<close>

theorem import_basic_auth_defaults_to_empty_strings:
  assumes "convert content = Some \<lparr>resources = [g, r]\<rparr>"
    and "resType g = ''request_group'' \<or> resType g = ''workspace''"
    and "resParentId g = ParentNull" and "resId g = Some gid"
    and "resType r = ''request''" and "resParentId r = ParentId gid"
    and "resAuthentication r = Some a" and "insoType a = Some ''basic''"
    and "username a = None" and "password a = None"
  shows "hoppInsomniaImporter convert kct (Suc depth) [content] =
           Some (Inr [Collection (orEmpty (resName g)) [] [getHoppRequest kct r] (AuthInherit True) []]) \<and>
         reqAuth (getHoppRequest kct r) = AuthBasic True [] []"
proof -
  have top: "getFoldersIn None [g, r] = [g]"
    using assms(2,3,5) by (auto simp: getFoldersIn_def isChildOf_def)
  have sub: "getFoldersIn (Some g) [g, r] = []"
    using assms(3,4,5) by (auto simp: getFoldersIn_def isChildOf_def)
  have reqs: "getRequestsIn (Some g) [g, r] = [r]"
    using assms(2,4,5,6) by (auto simp: getRequestsIn_def isChildOf_def)
  have folder: "getHoppFolder kct (Suc depth) g [g, r] =
      Some (Collection (orEmpty (resName g)) [] [getHoppRequest kct r] (AuthInherit True) [])"
    by (simp add: sub reqs)
  have "hoppInsomniaImporter convert kct (Suc depth) [content] =
           Some (Inr [Collection (orEmpty (resName g)) [] [getHoppRequest kct r] (AuthInherit True) []])"
    using assms(1) folder
    by (simp add: hoppInsomniaImporter_def parseInsomniaDoc_def getHoppCollections_def top
        del: getHoppFolder.simps)
  moreover have "reqAuth (getHoppRequest kct r) = AuthBasic True [] []"
    using getHoppReqAuth_basic_unset [OF assms(7-10)] by (simp add: getHoppRequest_def)
  ultimately show ?thesis by simp
qed

theorem import_basic_auth_defaults_to_empty_strings_witness:
  "hoppInsomniaImporter
     (\<lambda>s. if s = ''export.json'' then Some \<lparr>resources =
        [\<lparr>resId = Some ''fld_1'', resType = ''request_group'', resParentId = ParentNull,
          resName = Some ''Demo'', resUrl = None, resMethod = None, resAuthentication = None,
          resBody = None, resHeaders = None, resParameters = None\<rparr>,
         \<lparr>resId = Some ''req_1'', resType = ''request'', resParentId = ParentId ''fld_1'',
          resName = Some ''Login'', resUrl = Some ''{{ _.base }}/login'', resMethod = Some ''post'',
          resAuthentication = Some \<lparr>insoType = Some ''basic'', disabled = None, username = None,
            password = None, accessTokenUrl = None, authorizationUrl = None, clientId = None,
            scope = None, token = None\<rparr>,
          resBody = None, resHeaders = None, resParameters = None\<rparr>]\<rparr> else None)
     [] (Suc 0) [''export.json'']
   = Some (Inr [Collection ''Demo'' []
        [\<lparr>reqName = ''Login'', reqMethod = ''POST'', reqEndpoint = ''<<base>>/login'',
          reqAuth = AuthBasic True [] [], reqBody = BodyNone, reqHeaders = [], reqParams = [],
          preRequestScript = [], testScript = []\<rparr>]
        (AuthInherit True) []])"
  using import_basic_auth_defaults_to_empty_strings
    [of "(\<lambda>s. if s = ''export.json'' then Some \<lparr>resources =
        [\<lparr>resId = Some ''fld_1'', resType = ''request_group'', resParentId = ParentNull,
          resName = Some ''Demo'', resUrl = None, resMethod = None, resAuthentication = None,
          resBody = None, resHeaders = None, resParameters = None\<rparr>,
         \<lparr>resId = Some ''req_1'', resType = ''request'', resParentId = ParentId ''fld_1'',
          resName = Some ''Login'', resUrl = Some ''{{ _.base }}/login'', resMethod = Some ''post'',
          resAuthentication = Some \<lparr>insoType = Some ''basic'', disabled = None, username = None,
            password = None, accessTokenUrl = None, authorizationUrl = None, clientId = None,
            scope = None, token = None\<rparr>,
          resBody = None, resHeaders = None, resParameters = None\<rparr>]\<rparr> else None)"
        "''export.json''"
        "\<lparr>resId = Some ''fld_1'', resType = ''request_group'', resParentId = ParentNull,
          resName = Some ''Demo'', resUrl = None, resMethod = None, resAuthentication = None,
          resBody = None, resHeaders = None, resParameters = None\<rparr>"
        "\<lparr>resId = Some ''req_1'', resType = ''request'', resParentId = ParentId ''fld_1'',
          resName = Some ''Login'', resUrl = Some ''{{ _.base }}/login'', resMethod = Some ''post'',
          resAuthentication = Some \<lparr>insoType = Some ''basic'', disabled = None, username = None,
            password = None, accessTokenUrl = None, authorizationUrl = None, clientId = None,
            scope = None, token = None\<rparr>,
          resBody = None, resHeaders = None, resParameters = None\<rparr>"
        "''fld_1''"
        "\<lparr>insoType = Some ''basic'', disabled = None, username = None,
            password = None, accessTokenUrl = None, authorizationUrl = None, clientId = None,
            scope = None, token = None\<rparr>" "[]" 0]
  by (simp add: orEmpty_def getHoppRequest_def getHoppReqBody_def getHoppReqHeaders_def
      getHoppReqParams_def replaceVarTemplating_def matchTemplate_def toUpperCase_def)

end
